theory Spec2Isabelle
  imports Main "HOL-Library.Multiset"
begin

section \<open>Data model\<close>

text \<open>
  The two Mongoose collections of the service. An ObjectId is kept in its canonical
  (hexadecimal) string form; a timestamp is a JavaScript \<open>Date\<close>, that is a number of
  milliseconds since 1970-01-01T00:00:00Z. Field \<open>doc_id\<close> is the document's \<open>_id\<close>.
\<close>

type_synonym object_id = string

record MediaAsset =
  doc_id :: object_id
  title :: string
  media_type :: string
  file_url :: string

record MediaViewLog =
  media_id :: object_id
  viewed_by_ip :: string
  timestamp :: nat

text \<open>
  The state of the service: the two collections and the hit counters of the rate
  limiter of \<open>POST /media/:id/view\<close> (per client IP: hits in the current window and the
  instant at which the window ends).
\<close>

record state =
  assets :: "MediaAsset list"
  logs :: "MediaViewLog list"
  hits :: "(string \<times> nat \<times> nat) list"

text \<open>The body of \<open>GET /media/:id/analytics\<close>; \<open>views_per_day\<close> is a JavaScript object,
  kept as an association list in insertion order.\<close>

record AnalyticsSummary =
  total_views :: nat
  unique_ips :: nat
  views_per_day :: "(string \<times> nat) list"

datatype body =
    Json_message string
  | Json_media MediaAsset
  | Json_secure_stream_url string
  | Json_analytics AnalyticsSummary
  | Text string

record response =
  status :: nat
  body :: body

text \<open>
  What a route does with a request: it sends a response, or the promise of its
  \<open>async\<close> handler rejects before any response is sent (\<open>Rejected\<close>).
\<close>

datatype outcome = Sent response | Rejected

section \<open>Collaborators: configuration, clock, ObjectId, JSON Web Tokens\<close>

text \<open>The process environment read at start-up (\<open>process.env\<close> and \<open>../config\<close>); a
  variable that is not set is \<open>None\<close>.\<close>

record config =
  STREAM_TOKEN_SECRET :: "string option"
  jwtSecret :: "string option"
  PORT :: string

text \<open>
  What the surroundings decide for one request: the clock (\<open>Date.now()\<close>, in
  milliseconds), whether a database call of the request fails, and the \<open>_id\<close> Mongoose
  generates for a new document.
\<close>

record env =
  now :: nat
  findById_error :: bool
  find_error :: bool
  save_error :: bool
  new_id :: object_id

text \<open>The claims of a JSON Web Token: the payload given to \<open>jwt.sign\<close> (string-valued
  fields), \<open>iat\<close> and \<open>exp\<close> in seconds.\<close>

record jwt_claims =
  payload :: "(string \<times> string) list"
  iat :: nat
  exp :: "nat option"

text \<open>
  The library functions the routes call and whose code is not part of the service: the
  cast of a string to an ObjectId (\<open>None\<close> where the constructor throws), the compact
  serialisation of a token (claims and signature) with its parser (\<open>None\<close> for a
  malformed token), and the keyed signature.
\<close>

record libs =
  ObjectId :: "string \<Rightarrow> object_id option"
  jws_encode :: "jwt_claims \<Rightarrow> string \<Rightarrow> string"
  jws_decode :: "string \<Rightarrow> (jwt_claims \<times> string) option"
  hmac :: "string \<Rightarrow> jwt_claims \<Rightarrow> string"

definition ObjectId_isValid :: "libs \<Rightarrow> string \<Rightarrow> bool" where
  "ObjectId_isValid L idp \<longleftrightarrow> ObjectId L idp \<noteq> None"

datatype jwt_error = JsonWebTokenError | TokenExpiredError

text \<open>\<open>jwt.sign(payload, secret, {expiresIn})\<close>: the claims it signs, and the token; it
  throws (\<open>None\<close>) when the secret is undefined or empty.\<close>

definition sign_claims :: "(string \<times> string) list \<Rightarrow> nat \<Rightarrow> nat \<Rightarrow> jwt_claims" where
  "sign_claims p expiresIn t =
     \<lparr>payload = p, iat = t div 1000, exp = Some (t div 1000 + expiresIn)\<rparr>"

definition jwt_sign ::
  "libs \<Rightarrow> (string \<times> string) list \<Rightarrow> string option \<Rightarrow> nat \<Rightarrow> nat \<Rightarrow> string option" where
  "jwt_sign L p secret expiresIn t =
     (case secret of
        None \<Rightarrow> None
      | Some k \<Rightarrow>
          if k = [] then None
          else Some (jws_encode L (sign_claims p expiresIn t)
                       (hmac L k (sign_claims p expiresIn t))))"

text \<open>\<open>jwt.verify(token, secret, callback)\<close>: every failure is handed to the callback as
  \<open>err\<close> (\<open>Inl\<close>); the decoded claims are \<open>Inr\<close>.\<close>

definition jwt_verify :: "libs \<Rightarrow> string \<Rightarrow> string option \<Rightarrow> nat \<Rightarrow> jwt_error + jwt_claims" where
  "jwt_verify L token secret t =
     (if token = [] then Inl JsonWebTokenError
      else case jws_decode L token of
        None \<Rightarrow> Inl JsonWebTokenError
      | Some (c, sg) \<Rightarrow>
          (case secret of
             None \<Rightarrow> Inl JsonWebTokenError
           | Some k \<Rightarrow>
               if k = [] then Inl JsonWebTokenError
               else if sg \<noteq> hmac L k c then Inl JsonWebTokenError
               else (case exp c of
                       None \<Rightarrow> Inr c
                     | Some e \<Rightarrow> if e \<le> t div 1000 then Inl TokenExpiredError else Inr c)))"

section \<open>Database calls\<close>

datatype db_error = CastError | StoreError

definition MediaAsset_findById :: "libs \<Rightarrow> env \<Rightarrow> state \<Rightarrow> string \<Rightarrow> db_error + MediaAsset option" where
  "MediaAsset_findById L E s idp =
     (case ObjectId L idp of
        None \<Rightarrow> Inl CastError
      | Some oid \<Rightarrow>
          if findById_error E then Inl StoreError
          else Inr (find (\<lambda>a. doc_id a = oid) (assets s)))"

definition MediaViewLog_find :: "libs \<Rightarrow> env \<Rightarrow> state \<Rightarrow> string \<Rightarrow> db_error + MediaViewLog list" where
  "MediaViewLog_find L E s idp =
     (case ObjectId L idp of
        None \<Rightarrow> Inl CastError
      | Some oid \<Rightarrow>
          if find_error E then Inl StoreError
          else Inr (filter (\<lambda>l. media_id l = oid) (logs s)))"

text \<open>Modelled from the spec: the schema \<open>models/MediaViewLog.js\<close> is not among the
  sources; a view-log entry is \<open>{media_id, viewed_by_ip, timestamp: instant}\<close>, and an entry
  built without a timestamp gets the instant of its creation.\<close>

definition new_MediaViewLog :: "env \<Rightarrow> object_id \<Rightarrow> string \<Rightarrow> nat option \<Rightarrow> MediaViewLog" where
  "new_MediaViewLog E m ipa ts =
     \<lparr>media_id = m, viewed_by_ip = ipa,
      timestamp = (case ts of None \<Rightarrow> now E | Some t \<Rightarrow> t)\<rparr>"

definition MediaViewLog_save :: "env \<Rightarrow> state \<Rightarrow> MediaViewLog \<Rightarrow> db_error + state" where
  "MediaViewLog_save E s l =
     (if save_error E then Inl StoreError else Inr (s\<lparr>logs := logs s @ [l]\<rparr>))"

definition MediaAsset_save :: "env \<Rightarrow> state \<Rightarrow> MediaAsset \<Rightarrow> db_error + state" where
  "MediaAsset_save E s a =
     (if save_error E \<or> doc_id a \<in> doc_id ` set (assets s) then Inl StoreError
      else Inr (s\<lparr>assets := assets s @ [a]\<rparr>))"

section \<open>Middleware\<close>

text \<open>\<open>String.prototype.split(' ')\<close>: the segments between single space characters;
  the empty string has the one segment \<open>''\<close>.\<close>

fun split_space :: "string \<Rightarrow> string list" where
  "split_space [] = [[]]"
| "split_space (c # cs) =
     (if c = CHR '' '' then [] # split_space cs
      else (case split_space cs of
              [] \<Rightarrow> [[c]]
            | w # ws \<Rightarrow> (c # w) # ws))"

text \<open>\<open>xs[1]\<close>, \<open>undefined\<close> beyond the end of the array.\<close>

definition second :: "'a list \<Rightarrow> 'a option" where
  "second xs = (if 1 < length xs then Some (xs ! 1) else None)"

text \<open>\<open>authHeader && authHeader.split(' ')[1]\<close>: a missing or empty header is falsy and
  is the value of the expression itself.\<close>

definition header_token :: "string option \<Rightarrow> string option" where
  "header_token authHeader =
     (case authHeader of
        None \<Rightarrow> None
      | Some h \<Rightarrow> if h = [] then Some [] else second (split_space h))"

text \<open>\<open>authenticateToken\<close> (middleware/auth.js): \<open>Inl\<close> is the response it sends, \<open>Inr\<close>
  the decoded user with which it calls \<open>next()\<close>.\<close>

definition authenticateToken :: "libs \<Rightarrow> config \<Rightarrow> env \<Rightarrow> string option \<Rightarrow> response + jwt_claims" where
  "authenticateToken L C E authHeader =
     (case header_token authHeader of
        None \<Rightarrow> Inl \<lparr>status = 401, body = Json_message ''Unauthorized: No token provided''\<rparr>
      | Some token \<Rightarrow>
          if token = [] then
            Inl \<lparr>status = 401, body = Json_message ''Unauthorized: No token provided''\<rparr>
          else (case jwt_verify L token (jwtSecret C) (now E) of
                  Inl err \<Rightarrow> Inl \<lparr>status = 403, body = Json_message ''Forbidden: Invalid token''\<rparr>
                | Inr user \<Rightarrow> Inr user))"

text \<open>
  \<open>viewRateLimiter\<close>: express-rate-limit with \<open>windowMs = 60 * 1000\<close> and \<open>max = 1\<close>, keyed
  by the client IP. Every request that reaches it counts as a hit of the key's current
  window; it lets the request through (\<open>True\<close>) while the hits do not exceed \<open>max\<close>.
\<close>

definition windowMs :: nat where
  "windowMs = 60 * 1000"

definition max_hits :: nat where
  "max_hits = 1"

fun increment :: "(string \<times> nat \<times> nat) list \<Rightarrow> string \<Rightarrow> nat \<Rightarrow> (string \<times> nat \<times> nat) list \<times> nat" where
  "increment [] key t = ([(key, 1, t + windowMs)], 1)"
| "increment ((k, n, resetTime) # hs) key t =
     (if k = key then
        (if t < resetTime then ((k, n + 1, resetTime) # hs, n + 1)
         else ((k, 1, t + windowMs) # hs, 1))
      else (case increment hs key t of (hs', n') \<Rightarrow> ((k, n, resetTime) # hs', n')))"

definition viewRateLimiter :: "env \<Rightarrow> state \<Rightarrow> string \<Rightarrow> bool \<times> state" where
  "viewRateLimiter E s ipa =
     (case increment (hits s) ipa (now E) of
        (hs, totalHits) \<Rightarrow> (totalHits \<le> max_hits, s\<lparr>hits := hs\<rparr>))"

section \<open>UTC calendar day of a timestamp\<close>

text \<open>
  \<open>Date.prototype.toISOString\<close> on a time value \<open>t\<close> (milliseconds since the epoch, not
  negative): the proleptic Gregorian date and the time of day in UTC. A year above 9999
  is written in the expanded form, a sign and six digits.
\<close>

definition msPerDay :: nat where
  "msPerDay = 86400000"

definition DaysInYear :: "nat \<Rightarrow> nat" where
  "DaysInYear y =
     (if y mod 4 \<noteq> 0 then 365
      else if y mod 100 \<noteq> 0 then 366
      else if y mod 400 \<noteq> 0 then 365
      else 366)"

text \<open>The year that holds day \<open>d\<close> counted from 1 January of year \<open>y\<close>, and the day
  within that year.\<close>

function YearFromDay :: "nat \<Rightarrow> nat \<Rightarrow> nat \<times> nat" where
  "YearFromDay y d =
     (if d < DaysInYear y then (y, d) else YearFromDay (Suc y) (d - DaysInYear y))"
  by pat_completeness auto
termination
  by (relation "measure (\<lambda>(y, d). d)") (auto simp: DaysInYear_def)

declare YearFromDay.simps [simp del]

definition month_lengths :: "nat \<Rightarrow> nat list" where
  "month_lengths y =
     [31, if DaysInYear y = 366 then 29 else 28, 31, 30, 31, 30, 31, 31, 30, 31, 30, 31]"

fun MonthFromDay :: "nat list \<Rightarrow> nat \<Rightarrow> nat \<Rightarrow> nat \<times> nat" where
  "MonthFromDay [] m d = (m, d)"
| "MonthFromDay (l # ls) m d =
     (if d < l then (m, d) else MonthFromDay ls (Suc m) (d - l))"

definition digit :: "nat \<Rightarrow> char" where
  "digit n = ''0123456789'' ! (n mod 10)"

definition pad2 :: "nat \<Rightarrow> string" where
  "pad2 n = [digit (n div 10), digit n]"

definition pad3 :: "nat \<Rightarrow> string" where
  "pad3 n = [digit (n div 100), digit (n div 10), digit n]"

definition pad4 :: "nat \<Rightarrow> string" where
  "pad4 n = [digit (n div 1000), digit (n div 100), digit (n div 10), digit n]"

definition pad6 :: "nat \<Rightarrow> string" where
  "pad6 n = [digit (n div 100000), digit (n div 10000), digit (n div 1000),
             digit (n div 100), digit (n div 10), digit n]"

definition getUTCFullYear :: "nat \<Rightarrow> nat" where
  "getUTCFullYear t = fst (YearFromDay 1970 (t div msPerDay))"

definition toISOString :: "nat \<Rightarrow> string" where
  "toISOString t =
     (let tod = t mod msPerDay;
          (y, r) = YearFromDay 1970 (t div msPerDay);
          (m, d) = MonthFromDay (month_lengths y) 0 r
      in (if y \<le> 9999 then pad4 y else CHR ''+'' # pad6 y)
         @ ''-'' @ pad2 (m + 1) @ ''-'' @ pad2 (d + 1)
         @ ''T'' @ pad2 (tod div 3600000) @ '':'' @ pad2 (tod div 60000 mod 60)
         @ '':'' @ pad2 (tod div 1000 mod 60) @ ''.'' @ pad3 (tod mod 1000) @ ''Z'')"

text \<open>Days before year \<open>y0 + k\<close> counted from year \<open>y0\<close>, and days before month \<open>k\<close> of a
  year with the given month lengths: the inverse readings of the two searches above.\<close>

fun DayFromYear :: "nat \<Rightarrow> nat \<Rightarrow> nat" where
  "DayFromYear y0 0 = 0"
| "DayFromYear y0 (Suc k) = DayFromYear y0 k + DaysInYear (y0 + k)"

fun DayFromMonth :: "nat list \<Rightarrow> nat \<Rightarrow> nat" where
  "DayFromMonth ls 0 = 0"
| "DayFromMonth [] (Suc k) = 0"
| "DayFromMonth (l # ls) (Suc k) = l + DayFromMonth ls k"

section \<open>Analytics aggregation\<close>

text \<open>\<open>views_per_day[day] = (views_per_day[day] || 0) + 1\<close> on the object built so far.\<close>

fun bump :: "(string \<times> nat) list \<Rightarrow> string \<Rightarrow> (string \<times> nat) list" where
  "bump [] day = [(day, 1)]"
| "bump ((k, v) # m) day =
     (if k = day then (k, v + 1) # m else (k, v) # bump m day)"

definition day_of :: "MediaViewLog \<Rightarrow> string" where
  "day_of l = take 10 (toISOString (timestamp l))"

text \<open>The body of the \<open>try\<close> block of \<open>GET /:id/analytics\<close> once the logs are fetched.\<close>

definition summarize :: "MediaViewLog list \<Rightarrow> AnalyticsSummary" where
  "summarize ls =
     \<lparr>total_views = length ls,
      unique_ips = length (remdups (map viewed_by_ip ls)),
      views_per_day = foldl (\<lambda>m l. bump m (day_of l)) [] ls\<rparr>"

text \<open>The count an analytics summary reports for a day (0 for a day without a key).\<close>

definition day_count :: "AnalyticsSummary \<Rightarrow> string \<Rightarrow> nat" where
  "day_count a day = (case map_of (views_per_day a) day of None \<Rightarrow> 0 | Some c \<Rightarrow> c)"

section \<open>Routes\<close>

text \<open>A request-body field is \<open>undefined\<close> (\<open>None\<close>) or a string; \<open>!x\<close> holds for
  \<open>undefined\<close> and for the empty string.\<close>

definition falsy :: "string option \<Rightarrow> bool" where
  "falsy x \<longleftrightarrow> (case x of None \<Rightarrow> True | Some v \<Rightarrow> v = [])"

text \<open>\<open>POST /media\<close> (routes/media.js, lines 26 to 41).\<close>

definition post_media ::
  "libs \<Rightarrow> config \<Rightarrow> env \<Rightarrow> state \<Rightarrow> string option \<Rightarrow>
   string option \<Rightarrow> string option \<Rightarrow> string option \<Rightarrow> outcome \<times> state" where
  "post_media L C E s authHeader title_f type_f file_url_f =
     (case authenticateToken L C E authHeader of
        Inl r \<Rightarrow> (Sent r, s)
      | Inr user \<Rightarrow>
          if falsy title_f \<or> falsy type_f \<or> falsy file_url_f then
            (Sent \<lparr>status = 400, body = Json_message ''title, type, and file_url required''\<rparr>, s)
          else if the type_f \<notin> set [''video'', ''audio''] then
            (Sent \<lparr>status = 400,
                   body = Json_message (''type must be 'video' or 'audio'' @ [CHR 0x27])\<rparr>, s)
          else
            (let media = \<lparr>doc_id = new_id E, title = the title_f,
                          media_type = the type_f, file_url = the file_url_f\<rparr>
             in case MediaAsset_save E s media of
                  Inl err \<Rightarrow> (Sent \<lparr>status = 500, body = Json_message ''Server error''\<rparr>, s)
                | Inr s' \<Rightarrow> (Sent \<lparr>status = 201, body = Json_media media\<rparr>, s')))"

text \<open>\<open>GET /media/:id/stream-url\<close> (routes/media.js, lines 44 to 60). Everything after
  the format check is inside the \<open>try\<close> block: a failing lookup, \<open>jwt.sign\<close> throwing and a
  failing save all end in the \<open>catch\<close>.\<close>

definition stream_payload :: "MediaAsset \<Rightarrow> (string \<times> string) list" where
  "stream_payload media = [(''mediaId'', doc_id media), (''fileUrl'', file_url media)]"

definition get_stream_url ::
  "libs \<Rightarrow> config \<Rightarrow> env \<Rightarrow> state \<Rightarrow> string \<Rightarrow> string \<Rightarrow> outcome \<times> state" where
  "get_stream_url L C E s idp ipa =
     (if \<not> ObjectId_isValid L idp then
        (Sent \<lparr>status = 400, body = Json_message ''Invalid media ID''\<rparr>, s)
      else case MediaAsset_findById L E s idp of
        Inl err \<Rightarrow> (Sent \<lparr>status = 500, body = Json_message ''Server error''\<rparr>, s)
      | Inr None \<Rightarrow> (Sent \<lparr>status = 404, body = Json_message ''Media not found''\<rparr>, s)
      | Inr (Some media) \<Rightarrow>
          (case jwt_sign L (stream_payload media) (STREAM_TOKEN_SECRET C) 600 (now E) of
             None \<Rightarrow> (Sent \<lparr>status = 500, body = Json_message ''Server error''\<rparr>, s)
           | Some streamToken \<Rightarrow>
               (case MediaViewLog_save E s (new_MediaViewLog E (doc_id media) ipa None) of
                  Inl err \<Rightarrow> (Sent \<lparr>status = 500, body = Json_message ''Server error''\<rparr>, s)
                | Inr s' \<Rightarrow>
                    (Sent \<lparr>status = 200,
                           body = Json_secure_stream_url
                             (''http://localhost:'' @ PORT C @ ''/stream/'' @ streamToken)\<rparr>,
                     s'))))"

text \<open>\<open>GET /stream/:token\<close> (server.js, lines 23 to 31; the same handler is mounted at
  \<open>/media/stream/:token\<close>, routes/media.js, lines 63 to 71). It reads no collection. A
  decoded payload without a \<open>fileUrl\<close> field prints as \<open>undefined\<close>.\<close>

definition get_stream :: "libs \<Rightarrow> config \<Rightarrow> env \<Rightarrow> string \<Rightarrow> outcome" where
  "get_stream L C E token =
     (case jwt_verify L token (STREAM_TOKEN_SECRET C) (now E) of
        Inl err \<Rightarrow>
          Sent \<lparr>status = 403, body = Text ''Forbidden: Invalid or expired stream link.''\<rparr>
      | Inr decoded \<Rightarrow>
          Sent \<lparr>status = 200,
                body = Text (''Access granted to stream file: '' @
                  (case map_of (payload decoded) ''fileUrl'' of
                     None \<Rightarrow> ''undefined''
                   | Some u \<Rightarrow> u))\<rparr>)"

text \<open>\<open>POST /media/:id/view\<close> (routes/media.js, lines 82 to 107): the handler, in which
  the lookup of the asset stands before the \<open>try\<close> block, and the route with its two
  middlewares in front.\<close>

definition view_handler :: "libs \<Rightarrow> env \<Rightarrow> state \<Rightarrow> string \<Rightarrow> string \<Rightarrow> outcome \<times> state" where
  "view_handler L E s idp ipa =
     (if \<not> ObjectId_isValid L idp then
        (Sent \<lparr>status = 400, body = Json_message ''Invalid media ID''\<rparr>, s)
      else case MediaAsset_findById L E s idp of
        Inl err \<Rightarrow> (Rejected, s)
      | Inr None \<Rightarrow> (Sent \<lparr>status = 404, body = Json_message ''Media not found''\<rparr>, s)
      | Inr (Some media) \<Rightarrow>
          (case MediaViewLog_save E s (new_MediaViewLog E (doc_id media) ipa (Some (now E))) of
             Inl err \<Rightarrow> (Sent \<lparr>status = 500, body = Json_message ''Server error''\<rparr>, s)
           | Inr s' \<Rightarrow> (Sent \<lparr>status = 201, body = Json_message ''View logged''\<rparr>, s')))"

definition post_view ::
  "libs \<Rightarrow> config \<Rightarrow> env \<Rightarrow> state \<Rightarrow> string option \<Rightarrow> string \<Rightarrow> string \<Rightarrow> outcome \<times> state" where
  "post_view L C E s authHeader idp ipa =
     (case authenticateToken L C E authHeader of
        Inl r \<Rightarrow> (Sent r, s)
      | Inr user \<Rightarrow>
          (case viewRateLimiter E s ipa of
             (False, s1) \<Rightarrow>
               (Sent \<lparr>status = 429,
                      body = Text ''Too many views logged from this IP, please try again later.''\<rparr>,
                s1)
           | (True, s1) \<Rightarrow> view_handler L E s1 idp ipa))"

text \<open>\<open>GET /media/:id/analytics\<close> (routes/media.js, lines 112 to 156).\<close>

definition analytics_handler :: "libs \<Rightarrow> env \<Rightarrow> state \<Rightarrow> string \<Rightarrow> outcome \<times> state" where
  "analytics_handler L E s idp =
     (if \<not> ObjectId_isValid L idp then
        (Sent \<lparr>status = 400, body = Json_message ''Invalid media ID''\<rparr>, s)
      else case MediaAsset_findById L E s idp of
        Inl err \<Rightarrow> (Rejected, s)
      | Inr None \<Rightarrow> (Sent \<lparr>status = 404, body = Json_message ''Media not found''\<rparr>, s)
      | Inr (Some media) \<Rightarrow>
          (case MediaViewLog_find L E s idp of
             Inl err \<Rightarrow> (Sent \<lparr>status = 500, body = Json_message ''Server error''\<rparr>, s)
           | Inr ls \<Rightarrow> (Sent \<lparr>status = 200, body = Json_analytics (summarize ls)\<rparr>, s)))"

definition get_analytics ::
  "libs \<Rightarrow> config \<Rightarrow> env \<Rightarrow> state \<Rightarrow> string option \<Rightarrow> string \<Rightarrow> outcome \<times> state" where
  "get_analytics L C E s authHeader idp =
     (case authenticateToken L C E authHeader of
        Inl r \<Rightarrow> (Sent r, s)
      | Inr user \<Rightarrow> analytics_handler L E s idp)"

section \<open>The service as a transition system\<close>

text \<open>The requests that read or write the two collections, with the client IP where
  the route uses it.\<close>

datatype request =
    POST_media "string option" "string option" "string option" "string option"
  | GET_stream_url string string
  | GET_stream string
  | POST_view "string option" string string
  | GET_analytics "string option" string

fun route :: "libs \<Rightarrow> config \<Rightarrow> env \<Rightarrow> state \<Rightarrow> request \<Rightarrow> outcome \<times> state" where
  "route L C E s (POST_media h t ty u) = post_media L C E s h t ty u"
| "route L C E s (GET_stream_url idp ipa) = get_stream_url L C E s idp ipa"
| "route L C E s (GET_stream token) = (get_stream L C E token, s)"
| "route L C E s (POST_view h idp ipa) = post_view L C E s h idp ipa"
| "route L C E s (GET_analytics h idp) = get_analytics L C E s h idp"

definition initial :: state where
  "initial = \<lparr>assets = [], logs = [], hits = []\<rparr>"

inductive reachable :: "libs \<Rightarrow> config \<Rightarrow> state \<Rightarrow> bool" for L C where
  start: "reachable L C initial"
| request: "reachable L C s \<Longrightarrow> route L C E s rq = (out, s') \<Longrightarrow> reachable L C s'"

section \<open>A concrete instance of the collaborators\<close>

text \<open>
  The theorems below hold for every ObjectId cast, token serialisation and signature
  function. To run the routes on concrete requests, this section fixes one instance: an
  ObjectId is a string of 24 hexadecimal digits; a token is the sequence of its fields
  (\<open>iat\<close>, \<open>exp\<close>, signature, then the payload's keys and values), each escaped and
  followed by a dot.
\<close>

definition hex24 :: "string \<Rightarrow> object_id option" where
  "hex24 x = (if length x = 24 \<and> list_all (\<lambda>c. c \<in> set ''0123456789abcdef'') x
              then Some x else None)"

function show_nat :: "nat \<Rightarrow> string" where
  "show_nat n = (if n < 10 then [digit n] else show_nat (n div 10) @ [digit n])"
  by pat_completeness auto
termination
  by (relation "measure (\<lambda>n. n)") auto

declare show_nat.simps [simp del]

definition digit_value :: "char \<Rightarrow> nat option" where
  "digit_value c =
     (if c \<in> set ''0123456789'' then Some (length (takeWhile (\<lambda>d. d \<noteq> c) ''0123456789''))
      else None)"

fun read_nat :: "nat \<Rightarrow> string \<Rightarrow> nat option" where
  "read_nat acc [] = Some acc"
| "read_nat acc (c # cs) =
     (case digit_value c of None \<Rightarrow> None | Some v \<Rightarrow> read_nat (10 * acc + v) cs)"

fun escape :: "string \<Rightarrow> string" where
  "escape [] = []"
| "escape (c # cs) =
     (if c = CHR ''.'' then ''%d'' else if c = CHR '' '' then ''%s''
      else if c = CHR ''%'' then ''%p'' else [c]) @ escape cs"

fun unescape :: "string \<Rightarrow> string" where
  "unescape [] = []"
| "unescape [c] = [c]"
| "unescape (c # e # cs) =
     (if c = CHR ''%'' then
        (if e = CHR ''d'' then CHR ''.'' else if e = CHR ''s'' then CHR '' '' else CHR ''%'')
          # unescape cs
      else c # unescape (e # cs))"

fun fields :: "string \<Rightarrow> string \<Rightarrow> string list" where
  "fields acc [] = []"
| "fields acc (c # cs) =
     (if c = CHR ''.'' then unescape (rev acc) # fields [] cs else fields (c # acc) cs)"

fun pairs :: "string list \<Rightarrow> (string \<times> string) list" where
  "pairs (k # v # r) = (k, v) # pairs r"
| "pairs r = []"

definition dotted :: "string list \<Rightarrow> string" where
  "dotted fs = concat (map (\<lambda>f. escape f @ ''.'') fs)"

definition compact :: "jwt_claims \<Rightarrow> string \<Rightarrow> string" where
  "compact c sg =
     dotted ([show_nat (iat c), (case exp c of None \<Rightarrow> [] | Some e \<Rightarrow> show_nat e), sg]
             @ concat (map (\<lambda>(k, v). [k, v]) (payload c)))"

definition parse :: "string \<Rightarrow> (jwt_claims \<times> string) option" where
  "parse token =
     (case fields [] token of
        i # e # sg # kv \<Rightarrow>
          (case (read_nat 0 i, read_nat 0 e) of
             (Some ia, Some ex) \<Rightarrow>
               if i = [] then None
               else Some (\<lparr>payload = pairs kv, iat = ia,
                           exp = (if e = [] then None else Some ex)\<rparr>, sg)
           | _ \<Rightarrow> None)
      | _ \<Rightarrow> None)"

definition keyed :: "string \<Rightarrow> jwt_claims \<Rightarrow> string" where
  "keyed k c = ''HS256:'' @ k @ '':'' @ compact c []"

definition lib0 :: libs where
  "lib0 = \<lparr>ObjectId = hex24, jws_encode = compact, jws_decode = parse, hmac = keyed\<rparr>"

definition cfg0 :: config where
  "cfg0 = \<lparr>STREAM_TOKEN_SECRET = Some ''s3cret'', jwtSecret = Some ''jwtkey'', PORT = ''3000''\<rparr>"

text \<open>An environment in which no database call fails, at the given instant.\<close>

definition at :: "nat \<Rightarrow> env" where
  "at t = \<lparr>now = t, findById_error = False, find_error = False, save_error = False,
           new_id = ''65a1b2c3d4e5f60718293a4b''\<rparr>"

definition video0 :: MediaAsset where
  "video0 = \<lparr>doc_id = ''65a1b2c3d4e5f60718293a4b'', title = ''Test Video'',
             media_type = ''video'', file_url = ''http://cdn.example/v.mp4''\<rparr>"

text \<open>A session token that expires at second 1704070800, and the header carrying it.\<close>

definition session0 :: string where
  "session0 = compact \<lparr>payload = [(''id'', ''u1''), (''email'', ''a@b.c'')],
                        iat = 1704067200, exp = Some 1704070800\<rparr>
                (keyed ''jwtkey'' \<lparr>payload = [(''id'', ''u1''), (''email'', ''a@b.c'')],
                        iat = 1704067200, exp = Some 1704070800\<rparr>)"

definition bearer0 :: "string option" where
  "bearer0 = Some (''Bearer '' @ session0)"

section \<open>The calendar\<close>

lemma YearFromDay_inverse:
  "YearFromDay y d = (y', r) \<Longrightarrow> \<exists>k. y' = y + k \<and> d = DayFromYear y k + r"
proof (induction y d arbitrary: y' r rule: YearFromDay.induct)
  case (1 y d)
  show ?case
  proof (cases "d < DaysInYear y")
    case True
    with "1.prems" have "y' = y" "r = d" by (simp_all add: YearFromDay.simps)
    then show ?thesis by (intro exI[of _ 0]) simp
  next
    case False
    with "1.prems" have "YearFromDay (Suc y) (d - DaysInYear y) = (y', r)"
      by (simp add: YearFromDay.simps)
    from "1.IH"[OF False this] obtain k where
      k: "y' = Suc y + k" "d - DaysInYear y = DayFromYear (Suc y) k + r"
      by blast
    have shift: "DaysInYear y + DayFromYear (Suc y) j = DayFromYear y (Suc j)" for j
      by (induction j) simp_all
    from k False have "d = DayFromYear y (Suc k) + r"
      using shift[of k] by simp
    with k show ?thesis by (intro exI[of _ "Suc k"]) simp
  qed
qed

lemma YearFromDay_within: "YearFromDay y d = (y', r) \<Longrightarrow> r < DaysInYear y'"
proof (induction y d arbitrary: y' r rule: YearFromDay.induct)
  case (1 y d)
  show ?case
  proof (cases "d < DaysInYear y")
    case True
    with "1.prems" have "y' = y" "r = d" by (simp_all add: YearFromDay.simps)
    with True show ?thesis by simp
  next
    case False
    with "1.prems" have "YearFromDay (Suc y) (d - DaysInYear y) = (y', r)"
      by (simp add: YearFromDay.simps)
    from "1.IH"[OF False this] show ?thesis .
  qed
qed

lemma MonthFromDay_inverse:
  "MonthFromDay ls m d = (m', r) \<Longrightarrow> \<exists>k. m' = m + k \<and> d = DayFromMonth ls k + r"
proof (induction ls arbitrary: m d)
  case Nil
  then show ?case by (intro exI[of _ 0]) simp
next
  case (Cons l ls)
  show ?case
  proof (cases "d < l")
    case True
    with Cons.prems show ?thesis by (intro exI[of _ 0]) simp
  next
    case False
    with Cons.prems have "MonthFromDay ls (Suc m) (d - l) = (m', r)" by simp
    from Cons.IH[OF this] obtain k where "m' = Suc m + k" "d - l = DayFromMonth ls k + r"
      by blast
    with False show ?thesis by (intro exI[of _ "Suc k"]) simp
  qed
qed

lemma MonthFromDay_bounds:
  "MonthFromDay ls m d = (m', r) \<Longrightarrow> d < sum_list ls \<Longrightarrow> list_all (\<lambda>l. l \<le> b) ls \<Longrightarrow>
   m' < m + length ls \<and> r < b"
proof (induction ls arbitrary: m d)
  case Nil
  then show ?case by simp
next
  case (Cons l ls)
  show ?case
  proof (cases "d < l")
    case True
    with Cons.prems show ?thesis by auto
  next
    case False
    with Cons.prems have "MonthFromDay ls (Suc m) (d - l) = (m', r)" "d - l < sum_list ls"
      "list_all (\<lambda>l. l \<le> b) ls"
      by auto
    from Cons.IH[OF this] show ?thesis by simp
  qed
qed

lemma sum_month_lengths: "sum_list (month_lengths y) = DaysInYear y"
  by (simp add: month_lengths_def DaysInYear_def)

lemma month_lengths_le: "list_all (\<lambda>l. l \<le> 31) (month_lengths y)"
  by (simp add: month_lengths_def)

section \<open>Decimal digits\<close>

lemma digit_eq_iff: "digit a = digit b \<longleftrightarrow> a mod 10 = b mod 10"
proof
  assume e: "digit a = digit b"
  have d: "distinct ''0123456789''" by simp
  have "a mod 10 < length ''0123456789''" "b mod 10 < length ''0123456789''" by simp_all
  with d e show "a mod 10 = b mod 10"
    unfolding digit_def by (simp only: nth_eq_iff_index_eq)
next
  assume "a mod 10 = b mod 10"
  then show "digit a = digit b" by (simp add: digit_def)
qed

lemma div_mod_10_eq: "(x::nat) mod 10 = y mod 10 \<Longrightarrow> x div 10 = y div 10 \<Longrightarrow> x = y"
  by (metis div_mult_mod_eq)

lemma pad2_inj: "pad2 a = pad2 b \<Longrightarrow> a < 100 \<Longrightarrow> b < 100 \<Longrightarrow> a = b"
proof -
  assume e: "pad2 a = pad2 b" and "a < 100" "b < 100"
  from e have d: "a div 10 mod 10 = b div 10 mod 10" "a mod 10 = b mod 10"
    by (simp_all add: pad2_def digit_eq_iff)
  from \<open>a < 100\<close> \<open>b < 100\<close> have "a div 10 < 10" "b div 10 < 10" by simp_all
  with d(1) have "a div 10 = b div 10" by simp
  with d(2) show ?thesis by (rule div_mod_10_eq)
qed

lemma pad4_inj: "pad4 a = pad4 b \<Longrightarrow> a < 10000 \<Longrightarrow> b < 10000 \<Longrightarrow> a = b"
proof -
  assume e: "pad4 a = pad4 b" and "a < 10000" "b < 10000"
  from e have d: "a div 1000 mod 10 = b div 1000 mod 10" "a div 100 mod 10 = b div 100 mod 10"
    "a div 10 mod 10 = b div 10 mod 10" "a mod 10 = b mod 10"
    by (simp_all add: pad4_def digit_eq_iff)
  from \<open>a < 10000\<close> \<open>b < 10000\<close> have "a div 1000 < 10" "b div 1000 < 10" by simp_all
  with d(1) have "a div 1000 = b div 1000" by simp
  then have "a div 100 div 10 = b div 100 div 10" by (simp add: div_mult2_eq[symmetric])
  with d(2) have "a div 100 = b div 100" by (rule div_mod_10_eq)
  then have "a div 10 div 10 = b div 10 div 10" by (simp add: div_mult2_eq[symmetric])
  with d(3) have "a div 10 = b div 10" by (rule div_mod_10_eq)
  with d(4) show ?thesis by (rule div_mod_10_eq)
qed

section \<open>The day key\<close>

text \<open>The civil date of a timestamp: year, month index and day index.\<close>

lemma take10_toISOString:
  assumes "YearFromDay 1970 (t div msPerDay) = (y, r)"
      and "MonthFromDay (month_lengths y) 0 r = (m, d)"
      and "y \<le> 9999"
  shows "take 10 (toISOString t) = pad4 y @ ''-'' @ pad2 (m + 1) @ ''-'' @ pad2 (d + 1)"
  using assms by (simp add: toISOString_def Let_def pad4_def pad2_def)

lemma day_key_inj:
  assumes y1: "getUTCFullYear t1 \<le> 9999" and y2: "getUTCFullYear t2 \<le> 9999"
      and eq: "take 10 (toISOString t1) = take 10 (toISOString t2)"
  shows "t1 div msPerDay = t2 div msPerDay"
proof -
  obtain ya ra where a: "YearFromDay 1970 (t1 div msPerDay) = (ya, ra)" by (cases "YearFromDay 1970 (t1 div msPerDay)")
  obtain yb rb where b: "YearFromDay 1970 (t2 div msPerDay) = (yb, rb)" by (cases "YearFromDay 1970 (t2 div msPerDay)")
  obtain ma da where ma: "MonthFromDay (month_lengths ya) 0 ra = (ma, da)" by (cases "MonthFromDay (month_lengths ya) 0 ra")
  obtain mb db where mb: "MonthFromDay (month_lengths yb) 0 rb = (mb, db)" by (cases "MonthFromDay (month_lengths yb) 0 rb")
  from y1 a have ya: "ya \<le> 9999" by (simp add: getUTCFullYear_def)
  from y2 b have yb: "yb \<le> 9999" by (simp add: getUTCFullYear_def)
  from YearFromDay_within[OF a] have ra: "ra < sum_list (month_lengths ya)" by (simp add: sum_month_lengths)
  from YearFromDay_within[OF b] have rb: "rb < sum_list (month_lengths yb)" by (simp add: sum_month_lengths)
  from MonthFromDay_bounds[OF ma ra month_lengths_le] have ba: "ma < 12" "da < 31"
    by (simp_all add: month_lengths_def)
  from MonthFromDay_bounds[OF mb rb month_lengths_le] have bb: "mb < 12" "db < 31"
    by (simp_all add: month_lengths_def)
  from eq have "pad4 ya @ ''-'' @ pad2 (ma + 1) @ ''-'' @ pad2 (da + 1)
      = pad4 yb @ ''-'' @ pad2 (mb + 1) @ ''-'' @ pad2 (db + 1)"
    by (simp only: take10_toISOString[OF a ma ya] take10_toISOString[OF b mb yb])
  then have "pad4 ya = pad4 yb" "pad2 (ma + 1) = pad2 (mb + 1)" "pad2 (da + 1) = pad2 (db + 1)"
    by (simp_all add: pad4_def pad2_def)
  with ya yb ba bb have same: "ya = yb" "ma = mb" "da = db"
    by (auto dest!: pad4_inj pad2_inj)
  from YearFromDay_inverse[OF a] obtain ka where ka: "ya = 1970 + ka" "t1 div msPerDay = DayFromYear 1970 ka + ra" by blast
  from YearFromDay_inverse[OF b] obtain kb where kb: "yb = 1970 + kb" "t2 div msPerDay = DayFromYear 1970 kb + rb" by blast
  from MonthFromDay_inverse[OF ma] have "ra = DayFromMonth (month_lengths ya) ma + da" by simp
  moreover from MonthFromDay_inverse[OF mb] have "rb = DayFromMonth (month_lengths yb) mb + db" by simp
  ultimately have "ra = rb" using same by simp
  moreover from ka(1) kb(1) same(1) have "ka = kb" by simp
  ultimately show ?thesis using ka(2) kb(2) by simp
qed

lemma day_key_cong:
  "t1 div msPerDay = t2 div msPerDay \<Longrightarrow> take 10 (toISOString t1) = take 10 (toISOString t2)"
  by (simp add: toISOString_def Let_def pad4_def pad6_def pad2_def split: prod.splits)

section \<open>The per-day counters\<close>

lemma bump_keys:
  "map fst (bump m k) = (if k \<in> set (map fst m) then map fst m else map fst m @ [k])"
  by (induction m k rule: bump.induct) auto

lemma bump_distinct: "distinct (map fst m) \<Longrightarrow> distinct (map fst (bump m k))"
  by (simp add: bump_keys)

lemma bump_sum: "sum_list (map snd (bump m k)) = Suc (sum_list (map snd m))"
  by (induction m k rule: bump.induct) auto

lemma bump_lookup:
  "map_of (bump m k) j =
     (if j = k then Some (case map_of m k of None \<Rightarrow> 1 | Some v \<Rightarrow> v + 1) else map_of m j)"
  by (induction m k rule: bump.induct) auto

lemma bump_key_set: "fst ` set (bump m k) = insert k (fst ` set m)"
  by (induction m k rule: bump.induct) auto

lemma bump_all_keys: "fst ` set (foldl bump m ks) = fst ` set m \<union> set ks"
  by (induction ks arbitrary: m) (simp_all add: bump_key_set)

lemma bump_all_distinct: "distinct (map fst m) \<Longrightarrow> distinct (map fst (foldl bump m ks))"
  by (induction ks arbitrary: m) (simp_all add: bump_distinct)

lemma bump_all_sum: "sum_list (map snd (foldl bump m ks)) = sum_list (map snd m) + length ks"
  by (induction ks arbitrary: m) (simp_all add: bump_sum)

lemma bump_all_lookup:
  "(case map_of (foldl bump m ks) j of None \<Rightarrow> 0 | Some c \<Rightarrow> c) =
     (case map_of m j of None \<Rightarrow> 0 | Some c \<Rightarrow> c) + length (filter (\<lambda>k. k = j) ks)"
  by (induction ks arbitrary: m) (auto simp: bump_lookup split: option.splits)

lemma bump_all_positive: "0 \<notin> snd ` set m \<Longrightarrow> 0 \<notin> snd ` set (foldl bump m ks)"
proof (induction ks arbitrary: m)
  case Nil
  then show ?case by simp
next
  case (Cons k ks)
  have "0 \<notin> snd ` set (bump m k)" using Cons.prems
    by (induction m k rule: bump.induct) auto
  then show ?case using Cons.IH by simp
qed

lemma views_per_day_fold:
  "views_per_day (summarize ls) = foldl bump [] (map day_of ls)"
  by (simp add: summarize_def foldl_map)

section \<open>Counting distinct values\<close>

lemma remdups_length_cong:
  "(\<And>x y. x \<in> set xs \<Longrightarrow> y \<in> set xs \<Longrightarrow> (f x = f y) = (g x = g y)) \<Longrightarrow>
   length (remdups (map f xs)) = length (remdups (map g xs))"
proof (induction xs)
  case Nil
  then show ?case by simp
next
  case (Cons x xs)
  have "(f x \<in> f ` set xs) = (g x \<in> g ` set xs)"
    using Cons.prems by (auto simp: image_iff)
  moreover have "length (remdups (map f xs)) = length (remdups (map g xs))"
    using Cons by simp
  ultimately show ?case by simp
qed

lemma card_image_cong:
  "(\<And>x y. x \<in> set xs \<Longrightarrow> y \<in> set xs \<Longrightarrow> (f x = f y) = (g x = g y)) \<Longrightarrow>
   card (f ` set xs) = card (g ` set xs)"
  using remdups_length_cong[of xs f g] by (simp add: card_set flip: set_map)

section \<open>The summary\<close>

lemma unique_ips_card: "unique_ips (summarize ls) = card (viewed_by_ip ` set ls)"
  by (simp add: summarize_def card_set flip: set_map)

lemma summarize_counts:
  assumes "\<forall>l\<in>set ls. getUTCFullYear (timestamp l) \<le> 9999"
  shows "total_views (summarize ls) = length ls"
    and "unique_ips (summarize ls) = card (viewed_by_ip ` set ls)"
    and "distinct (map fst (views_per_day (summarize ls)))"
    and "set (map fst (views_per_day (summarize ls))) = day_of ` set ls"
    and "length (views_per_day (summarize ls)) = card ((\<lambda>l. timestamp l div msPerDay) ` set ls)"
    and "sum_list (map snd (views_per_day (summarize ls))) = length ls"
    and "0 \<notin> snd ` set (views_per_day (summarize ls))"
    and "day_count (summarize ls) day = length (filter (\<lambda>l. day_of l = day) ls)"
proof -
  show "total_views (summarize ls) = length ls" by (simp add: summarize_def)
  show "unique_ips (summarize ls) = card (viewed_by_ip ` set ls)"
    by (simp add: summarize_def card_set flip: set_map)
  show d: "distinct (map fst (views_per_day (summarize ls)))"
    by (simp add: views_per_day_fold bump_all_distinct)
  show k: "set (map fst (views_per_day (summarize ls))) = day_of ` set ls"
    by (simp add: views_per_day_fold bump_all_keys)
  have "card (day_of ` set ls) = card ((\<lambda>l. timestamp l div msPerDay) ` set ls)"
  proof (rule card_image_cong)
    fix x y assume "x \<in> set ls" "y \<in> set ls"
    with assms have "getUTCFullYear (timestamp x) \<le> 9999" "getUTCFullYear (timestamp y) \<le> 9999"
      by simp_all
    then show "(day_of x = day_of y) = (timestamp x div msPerDay = timestamp y div msPerDay)"
      unfolding day_of_def using day_key_inj day_key_cong by blast
  qed
  moreover have "length (views_per_day (summarize ls)) = card (set (map fst (views_per_day (summarize ls))))"
    using distinct_card[OF d] by simp
  ultimately show "length (views_per_day (summarize ls)) = card ((\<lambda>l. timestamp l div msPerDay) ` set ls)"
    using k by simp
  show "sum_list (map snd (views_per_day (summarize ls))) = length ls"
    by (simp add: views_per_day_fold bump_all_sum)
  show "0 \<notin> snd ` set (views_per_day (summarize ls))"
    by (simp only: views_per_day_fold, rule bump_all_positive) simp
  show "day_count (summarize ls) day = length (filter (\<lambda>l. day_of l = day) ls)"
    unfolding day_count_def views_per_day_fold bump_all_lookup
    by (simp add: filter_map comp_def)
qed

section \<open>The concrete instance\<close>

lemma session0_text:
  "session0 = ''1704067200.1704070800.HS256:jwtkey:1704067200%d1704070800%d%did%du1%demail%da@b%pdc%d.id.u1.email.a@b%dc.''"
  by (simp add: session0_def compact_def keyed_def dotted_def show_nat.simps digit_def)

lemma session0_space: "CHR '' '' \<notin> set session0"
  by (simp add: session0_text)

lemma verify_session0:
  "t div 1000 < 1704070800 \<Longrightarrow>
   jwt_verify lib0 session0 (Some ''jwtkey'') t =
     Inr \<lparr>payload = [(''id'', ''u1''), (''email'', ''a@b.c'')], iat = 1704067200, exp = Some 1704070800\<rparr>"
  by (simp add: jwt_verify_def lib0_def session0_text parse_def keyed_def compact_def dotted_def
      show_nat.simps digit_def digit_value_def)

lemma auth_bearer0:
  "now E div 1000 < 1704070800 \<Longrightarrow>
   authenticateToken lib0 cfg0 E bearer0 =
     Inr \<lparr>payload = [(''id'', ''u1''), (''email'', ''a@b.c'')], iat = 1704067200, exp = Some 1704070800\<rparr>"
  by (simp add: authenticateToken_def header_token_def bearer0_def second_def cfg0_def
      jwt_verify_def lib0_def session0_text parse_def keyed_def compact_def dotted_def
      show_nat.simps digit_def digit_value_def)

section \<open>Responses of the analytics route\<close>

lemma authenticateToken_status:
  "authenticateToken L C E h = Inl r \<Longrightarrow> status r = 401 \<or> status r = 403"
  by (auto simp: authenticateToken_def split: option.splits if_splits sum.splits)

lemma analytics_handler_200:
  assumes "analytics_handler L E s idp = (Sent r, s')" and "status r = 200"
  shows "\<exists>oid. ObjectId L idp = Some oid \<and> oid \<in> doc_id ` set (assets s) \<and>
           body r = Json_analytics (summarize (filter (\<lambda>l. media_id l = oid) (logs s))) \<and> s' = s"
proof -
  from assms have v: "ObjectId_isValid L idp"
    by (cases "ObjectId_isValid L idp") (auto simp: analytics_handler_def)
  from assms v obtain m where f: "MediaAsset_findById L E s idp = Inr (Some m)"
    by (cases "MediaAsset_findById L E s idp")
       (auto simp: analytics_handler_def split: option.splits)
  from assms v f obtain ls where g: "MediaViewLog_find L E s idp = Inr ls"
    by (cases "MediaViewLog_find L E s idp") (auto simp: analytics_handler_def)
  from assms v f g have b: "body r = Json_analytics (summarize ls)" "s' = s"
    by (auto simp: analytics_handler_def)
  from f obtain oid where o: "ObjectId L idp = Some oid" "find (\<lambda>a. doc_id a = oid) (assets s) = Some m"
    by (auto simp: MediaAsset_findById_def split: option.splits if_splits)
  from o(2) have "oid \<in> doc_id ` set (assets s)"
    by (auto simp: find_Some_iff image_iff)
  moreover from g o(1) have "ls = filter (\<lambda>l. media_id l = oid) (logs s)"
    by (auto simp: MediaViewLog_find_def split: if_splits)
  ultimately show ?thesis using o(1) b by simp
qed

lemma get_analytics_200:
  assumes "get_analytics L C E s h idp = (Sent r, s')" and "status r = 200"
  shows "\<exists>oid. ObjectId L idp = Some oid \<and> oid \<in> doc_id ` set (assets s) \<and>
           body r = Json_analytics (summarize (filter (\<lambda>l. media_id l = oid) (logs s))) \<and> s' = s"
proof (cases "authenticateToken L C E h")
  case (Inl e)
  with assms have "r = e" by (simp add: get_analytics_def)
  with assms(2) authenticateToken_status[OF Inl] show ?thesis by simp
next
  case (Inr u)
  with assms(1) have "analytics_handler L E s idp = (Sent r, s')" by (simp add: get_analytics_def)
  from analytics_handler_200[OF this assms(2)] show ?thesis .
qed

lemma get_analytics_state: "snd (get_analytics L C E s h idp) = s"
  by (auto simp: get_analytics_def analytics_handler_def split: sum.splits option.splits)

text \<open>
  Claim C8. For an authenticated request on an existing asset that has no view-log entry,
  with the two database reads succeeding, the analytics route answers 200 with the summary
  \<open>{total_views: 0, unique_ips: 0, views_per_day: {}}\<close> and leaves the state as it was.
\<close>

theorem analytics_zero_views:
  assumes "authenticateToken L C E authHeader = Inr user"
      and "ObjectId L idp = Some oid"
      and "oid \<in> doc_id ` set (assets s)"
      and "oid \<notin> media_id ` set (logs s)"
      and "\<not> findById_error E" and "\<not> find_error E"
  shows "get_analytics L C E s authHeader idp =
           (Sent \<lparr>status = 200,
                  body = Json_analytics \<lparr>total_views = 0, unique_ips = 0, views_per_day = []\<rparr>\<rparr>, s)"
proof -
  from assms(3) obtain m where "find (\<lambda>a. doc_id a = oid) (assets s) = Some m"
    by (cases "find (\<lambda>a. doc_id a = oid) (assets s)") (auto simp: find_None_iff)
  moreover from assms(4) have "filter (\<lambda>l. media_id l = oid) (logs s) = []"
    by (auto simp: filter_empty_conv)
  ultimately show ?thesis using assms(1,2,5,6)
    by (simp add: get_analytics_def analytics_handler_def ObjectId_isValid_def
        MediaAsset_findById_def MediaViewLog_find_def summarize_def)
qed

theorem analytics_zero_views_witness:
  "get_analytics lib0 cfg0 (at 1704067300000) \<lparr>assets = [video0], logs = [], hits = []\<rparr>
     bearer0 ''65a1b2c3d4e5f60718293a4b'' =
   (Sent \<lparr>status = 200,
          body = Json_analytics \<lparr>total_views = 0, unique_ips = 0, views_per_day = []\<rparr>\<rparr>,
    \<lparr>assets = [video0], logs = [], hits = []\<rparr>)"
proof -
  have a: "authenticateToken lib0 cfg0 (at 1704067300000) bearer0 =
     Inr \<lparr>payload = [(''id'', ''u1''), (''email'', ''a@b.c'')], iat = 1704067200, exp = Some 1704070800\<rparr>"
    by (rule auth_bearer0) (simp add: at_def)
  have o: "ObjectId lib0 ''65a1b2c3d4e5f60718293a4b'' = Some ''65a1b2c3d4e5f60718293a4b''"
    by (simp add: lib0_def hex24_def)
  show ?thesis
    by (rule analytics_zero_views[OF a o]) (simp_all add: video0_def at_def)
qed

text \<open>
  Claim C1. Let the analytics route answer 200 with summary \<open>a\<close> for an asset, and let
  \<open>rows\<close> be the stored entries of that asset, every one with a UTC year of at most 9999
  (the years for which the first ten characters of the ISO string are the day
  \<open>YYYY-MM-DD\<close>). Then \<open>total_views\<close> is the number of rows, \<open>unique_ips\<close> the number of
  distinct client IPs, and \<open>views_per_day\<close> has pairwise distinct keys, which are the day
  strings of the rows, as many as the rows have distinct UTC days; no value is 0, the
  values sum to the number of rows, and each day's value is the number of rows of that day.
\<close>

theorem analytics_counts:
  assumes "get_analytics L C E s authHeader idp =
             (Sent \<lparr>status = 200, body = Json_analytics a\<rparr>, s')"
      and "ObjectId L idp = Some oid"
      and "rows = filter (\<lambda>l. media_id l = oid) (logs s)"
      and "\<forall>l\<in>set rows. getUTCFullYear (timestamp l) \<le> 9999"
  shows "total_views a = length rows
       \<and> unique_ips a = card (viewed_by_ip ` set rows)
       \<and> distinct (map fst (views_per_day a))
       \<and> set (map fst (views_per_day a)) = day_of ` set rows
       \<and> length (views_per_day a) = card ((\<lambda>l. timestamp l div msPerDay) ` set rows)
       \<and> 0 \<notin> snd ` set (views_per_day a)
       \<and> sum_list (map snd (views_per_day a)) = length rows
       \<and> (\<forall>day. day_count a day = length (filter (\<lambda>l. day_of l = day) rows))"
proof -
  from get_analytics_200[OF assms(1)] assms(2,3) have a: "a = summarize rows" by auto
  show ?thesis
    unfolding a using summarize_counts[OF assms(4)] by blast
qed

theorem analytics_counts_witness:
  "get_analytics lib0 cfg0 (at 1704067400000)
     \<lparr>assets = [video0],
      logs = [\<lparr>media_id = ''65a1b2c3d4e5f60718293a4b'', viewed_by_ip = ''10.0.0.1'', timestamp = 1703980900000\<rparr>,
              \<lparr>media_id = ''65a1b2c3d4e5f60718293a4b'', viewed_by_ip = ''10.0.0.2'', timestamp = 1704067300000\<rparr>,
              \<lparr>media_id = ''0123456789abcdef01234567'', viewed_by_ip = ''10.0.0.3'', timestamp = 1704067300001\<rparr>,
              \<lparr>media_id = ''65a1b2c3d4e5f60718293a4b'', viewed_by_ip = ''10.0.0.1'', timestamp = 1704067300002\<rparr>],
      hits = []\<rparr>
     bearer0 ''65a1b2c3d4e5f60718293a4b'' =
   (Sent \<lparr>status = 200,
          body = Json_analytics \<lparr>total_views = 3, unique_ips = 2,
                   views_per_day = [(''2023-12-31'', 1), (''2024-01-01'', 2)]\<rparr>\<rparr>,
    \<lparr>assets = [video0],
      logs = [\<lparr>media_id = ''65a1b2c3d4e5f60718293a4b'', viewed_by_ip = ''10.0.0.1'', timestamp = 1703980900000\<rparr>,
              \<lparr>media_id = ''65a1b2c3d4e5f60718293a4b'', viewed_by_ip = ''10.0.0.2'', timestamp = 1704067300000\<rparr>,
              \<lparr>media_id = ''0123456789abcdef01234567'', viewed_by_ip = ''10.0.0.3'', timestamp = 1704067300001\<rparr>,
              \<lparr>media_id = ''65a1b2c3d4e5f60718293a4b'', viewed_by_ip = ''10.0.0.1'', timestamp = 1704067300002\<rparr>],
      hits = []\<rparr>)
   \<and> card (viewed_by_ip `
         set [\<lparr>media_id = ''65a1b2c3d4e5f60718293a4b'', viewed_by_ip = ''10.0.0.1'', timestamp = 1703980900000\<rparr>,
              \<lparr>media_id = ''65a1b2c3d4e5f60718293a4b'', viewed_by_ip = ''10.0.0.2'', timestamp = 1704067300000\<rparr>,
              \<lparr>media_id = ''65a1b2c3d4e5f60718293a4b'', viewed_by_ip = ''10.0.0.1'', timestamp = 1704067300002\<rparr>]) = 2
   \<and> card ((\<lambda>l. timestamp l div msPerDay) `
         set [\<lparr>media_id = ''65a1b2c3d4e5f60718293a4b'', viewed_by_ip = ''10.0.0.1'', timestamp = 1703980900000\<rparr>,
              \<lparr>media_id = ''65a1b2c3d4e5f60718293a4b'', viewed_by_ip = ''10.0.0.2'', timestamp = 1704067300000\<rparr>,
              \<lparr>media_id = ''65a1b2c3d4e5f60718293a4b'', viewed_by_ip = ''10.0.0.1'', timestamp = 1704067300002\<rparr>]) = 2"
proof -
  let ?r1 = "\<lparr>media_id = ''65a1b2c3d4e5f60718293a4b'', viewed_by_ip = ''10.0.0.1'', timestamp = 1703980900000\<rparr>"
  let ?r2 = "\<lparr>media_id = ''65a1b2c3d4e5f60718293a4b'', viewed_by_ip = ''10.0.0.2'', timestamp = 1704067300000\<rparr>"
  let ?r3 = "\<lparr>media_id = ''0123456789abcdef01234567'', viewed_by_ip = ''10.0.0.3'', timestamp = 1704067300001\<rparr>"
  let ?r4 = "\<lparr>media_id = ''65a1b2c3d4e5f60718293a4b'', viewed_by_ip = ''10.0.0.1'', timestamp = 1704067300002\<rparr>"
  let ?s = "\<lparr>assets = [video0], logs = [?r1, ?r2, ?r3, ?r4], hits = []\<rparr>"
  let ?a = "\<lparr>total_views = 3, unique_ips = 2,
             views_per_day = [(''2023-12-31'', 1), (''2024-01-01'', 2)]\<rparr>"
  have au: "authenticateToken lib0 cfg0 (at 1704067400000) bearer0 =
     Inr \<lparr>payload = [(''id'', ''u1''), (''email'', ''a@b.c'')], iat = 1704067200, exp = Some 1704070800\<rparr>"
    by (rule auth_bearer0) (simp add: at_def)
  have o: "ObjectId lib0 ''65a1b2c3d4e5f60718293a4b'' = Some ''65a1b2c3d4e5f60718293a4b''"
    by (simp add: lib0_def hex24_def)
  have d1: "day_of ?r1 = ''2023-12-31''"
    by (simp add: day_of_def toISOString_def msPerDay_def YearFromDay.simps DaysInYear_def
        month_lengths_def pad2_def pad3_def pad4_def digit_def Let_def)
  have d2: "day_of ?r2 = ''2024-01-01''"
    by (simp add: day_of_def toISOString_def msPerDay_def YearFromDay.simps DaysInYear_def
        month_lengths_def pad2_def pad3_def pad4_def digit_def Let_def)
  have d4: "day_of ?r4 = ''2024-01-01''"
    by (simp add: day_of_def toISOString_def msPerDay_def YearFromDay.simps DaysInYear_def
        month_lengths_def pad2_def pad3_def pad4_def digit_def Let_def)
  have sm: "summarize [?r1, ?r2, ?r4] = ?a"
    by (simp add: summarize_def d1 d2 d4)
  have run: "get_analytics lib0 cfg0 (at 1704067400000) ?s bearer0 ''65a1b2c3d4e5f60718293a4b'' =
      (Sent \<lparr>status = 200, body = Json_analytics ?a\<rparr>, ?s)"
  proof -
    have "analytics_handler lib0 (at 1704067400000) ?s ''65a1b2c3d4e5f60718293a4b'' =
        (Sent \<lparr>status = 200, body = Json_analytics ?a\<rparr>, ?s)"
      by (simp add: analytics_handler_def ObjectId_isValid_def o
          MediaAsset_findById_def MediaViewLog_find_def at_def video0_def sm)
    then show ?thesis by (simp add: get_analytics_def au)
  qed
  have rows: "[?r1, ?r2, ?r4] = filter (\<lambda>l. media_id l = ''65a1b2c3d4e5f60718293a4b'') (logs ?s)"
    by simp
  have years: "\<forall>l\<in>set [?r1, ?r2, ?r4]. getUTCFullYear (timestamp l) \<le> 9999"
    by (simp add: getUTCFullYear_def msPerDay_def YearFromDay.simps DaysInYear_def)
  from analytics_counts[OF run o rows years] run show ?thesis by simp
qed

text \<open>
  Beyond the year 9999 the ISO string has the expanded form, and its first ten characters
  are the sign, the six digits of the year, a hyphen and the month: the days of one month
  then share a key. This is why the theorem above is stated for years up to 9999.
\<close>

lemma day_key_expanded_year:
  assumes "YearFromDay 1970 (t div msPerDay) = (y, r)"
      and "MonthFromDay (month_lengths y) 0 r = (m, d)"
      and "9999 < y"
  shows "take 10 (toISOString t) = CHR ''+'' # pad6 y @ ''-'' @ pad2 (m + 1)"
  using assms by (simp add: toISOString_def Let_def pad6_def pad2_def)

section \<open>What the routes do to the collections\<close>

lemma findById_Some:
  "MediaAsset_findById L E s idp = Inr (Some m) \<Longrightarrow>
   ObjectId L idp = Some (doc_id m) \<and> m \<in> set (assets s) \<and> \<not> findById_error E"
  by (auto simp: MediaAsset_findById_def find_Some_iff split: option.splits if_splits)

lemma findById_Inl:
  "ObjectId_isValid L idp \<Longrightarrow> MediaAsset_findById L E s idp = Inl e \<Longrightarrow> findById_error E"
  by (auto simp: MediaAsset_findById_def ObjectId_isValid_def split: option.splits if_splits)

text \<open>The five ways out of the view handler.\<close>

lemma view_handler_cases:
  assumes "view_handler L E s idp ipa = (out, s')"
  obtains
    (invalid) "out = Sent \<lparr>status = 400, body = Json_message ''Invalid media ID''\<rparr>" "s' = s"
  | (rejected) "out = Rejected" "s' = s" "findById_error E"
  | (missing) "out = Sent \<lparr>status = 404, body = Json_message ''Media not found''\<rparr>" "s' = s"
  | (failed) "out = Sent \<lparr>status = 500, body = Json_message ''Server error''\<rparr>" "s' = s"
      "save_error E"
  | (logged) m where "out = Sent \<lparr>status = 201, body = Json_message ''View logged''\<rparr>"
      "ObjectId L idp = Some (doc_id m)" "m \<in> set (assets s)"
      "s' = s\<lparr>logs := logs s @ [\<lparr>media_id = doc_id m, viewed_by_ip = ipa, timestamp = now E\<rparr>]\<rparr>"
proof (cases "ObjectId_isValid L idp")
  case False
  with assms invalid show ?thesis by (simp add: view_handler_def)
next
  case v: True
  show ?thesis
  proof (cases "MediaAsset_findById L E s idp")
    case (Inl e)
    with assms v rejected findById_Inl[OF v Inl] show ?thesis by (simp add: view_handler_def)
  next
    case (Inr found)
    show ?thesis
    proof (cases found)
      case None
      with assms v Inr missing show ?thesis by (simp add: view_handler_def)
    next
      case (Some m)
      note f = findById_Some[OF Inr[unfolded Some]]
      show ?thesis
      proof (cases "save_error E")
        case True
        with assms v Inr Some failed show ?thesis
          by (simp add: view_handler_def MediaViewLog_save_def)
      next
        case False
        with assms v Inr Some have
          "out = Sent \<lparr>status = 201, body = Json_message ''View logged''\<rparr>"
          "s' = s\<lparr>logs := logs s @ [\<lparr>media_id = doc_id m, viewed_by_ip = ipa, timestamp = now E\<rparr>]\<rparr>"
          by (simp_all add: view_handler_def MediaViewLog_save_def new_MediaViewLog_def)
        with f logged show ?thesis by blast
      qed
    qed
  qed
qed

lemma viewRateLimiter_collections:
  "viewRateLimiter E s ipa = (ok, s1) \<Longrightarrow> logs s1 = logs s \<and> assets s1 = assets s"
  by (auto simp: viewRateLimiter_def split: prod.splits)

text \<open>The ways out of the stream-URL handler.\<close>

lemma get_stream_url_cases:
  assumes "get_stream_url L C E s idp ipa = (out, s')"
  obtains
    (invalid) "out = Sent \<lparr>status = 400, body = Json_message ''Invalid media ID''\<rparr>" "s' = s"
      "ObjectId L idp = None"
  | (missing) "out = Sent \<lparr>status = 404, body = Json_message ''Media not found''\<rparr>" "s' = s"
      "MediaAsset_findById L E s idp = Inr None"
  | (failed) "out = Sent \<lparr>status = 500, body = Json_message ''Server error''\<rparr>" "s' = s"
  | (issued) m k where
      "ObjectId L idp = Some (doc_id m)" "m \<in> set (assets s)" "\<not> findById_error E"
      "MediaAsset_findById L E s idp = Inr (Some m)"
      "STREAM_TOKEN_SECRET C = Some k" "k \<noteq> []" "\<not> save_error E"
      "out = Sent \<lparr>status = 200, body = Json_secure_stream_url
         (''http://localhost:'' @ PORT C @ ''/stream/'' @
          jws_encode L (sign_claims (stream_payload m) 600 (now E))
            (hmac L k (sign_claims (stream_payload m) 600 (now E))))\<rparr>"
      "s' = s\<lparr>logs := logs s @ [\<lparr>media_id = doc_id m, viewed_by_ip = ipa, timestamp = now E\<rparr>]\<rparr>"
proof (cases "ObjectId_isValid L idp")
  case False
  with assms invalid show ?thesis by (simp add: get_stream_url_def ObjectId_isValid_def)
next
  case v: True
  show ?thesis
  proof (cases "MediaAsset_findById L E s idp")
    case (Inl e)
    with assms v failed show ?thesis by (simp add: get_stream_url_def)
  next
    case (Inr found)
    show ?thesis
    proof (cases found)
      case None
      with assms v Inr missing show ?thesis by (simp add: get_stream_url_def)
    next
      case (Some m)
      note f = findById_Some[OF Inr[unfolded Some]]
      show ?thesis
      proof (cases "jwt_sign L (stream_payload m) (STREAM_TOKEN_SECRET C) 600 (now E)")
        case None
        with assms v Inr Some failed show ?thesis by (simp add: get_stream_url_def)
      next
        case tok: (Some token)
        then obtain k where k: "STREAM_TOKEN_SECRET C = Some k" "k \<noteq> []"
          "token = jws_encode L (sign_claims (stream_payload m) 600 (now E))
            (hmac L k (sign_claims (stream_payload m) 600 (now E)))"
          by (auto simp: jwt_sign_def split: option.splits if_splits)
        show ?thesis
        proof (cases "save_error E")
          case True
          with assms v Inr Some tok failed show ?thesis
            by (simp add: get_stream_url_def MediaViewLog_save_def)
        next
          case False
          with assms v Inr Some tok have
            "out = Sent \<lparr>status = 200, body = Json_secure_stream_url
               (''http://localhost:'' @ PORT C @ ''/stream/'' @ token)\<rparr>"
            "s' = s\<lparr>logs := logs s @ [\<lparr>media_id = doc_id m, viewed_by_ip = ipa, timestamp = now E\<rparr>]\<rparr>"
            by (simp_all add: get_stream_url_def MediaViewLog_save_def new_MediaViewLog_def)
          with f k False Inr Some issued show ?thesis by blast
        qed
      qed
    qed
  qed
qed

section \<open>View ingestion\<close>

text \<open>
  Claim C4, as the code has it. A call of \<open>POST /media/:id/view\<close> whose asset lookup does
  not fail is answered with exactly one response, of status 201 (accepted), 429 (rate
  limited), 404 (not found), 400 (invalid id), 401 or 403 (rejected by the authentication
  middleware) or 500 (the append failed, and only then). One entry, for the asset found,
  the caller's IP and the current instant, is appended when the status is 201; on every
  other outcome the view log is as before. The assets are never changed.
\<close>

theorem view_ingestion_outcomes:
  assumes "post_view L C E s authHeader idp ipa = (out, s')"
  shows "(\<not> findById_error E \<longrightarrow>
            (\<exists>r. out = Sent r \<and> status r \<in> {201, 429, 404, 400, 401, 403, 500}))
       \<and> (case out of
             Sent r \<Rightarrow>
               if status r = 201 then
                 \<exists>m\<in>set (assets s). ObjectId L idp = Some (doc_id m) \<and>
                   logs s' = logs s @ [\<lparr>media_id = doc_id m, viewed_by_ip = ipa, timestamp = now E\<rparr>]
               else logs s' = logs s
           | Rejected \<Rightarrow> logs s' = logs s)
       \<and> (\<forall>r. out = Sent r \<and> status r = 500 \<longrightarrow> save_error E)
       \<and> assets s' = assets s"
proof (cases "authenticateToken L C E authHeader")
  case (Inl e)
  with assms have "out = Sent e" "s' = s" by (simp_all add: post_view_def)
  with authenticateToken_status[OF Inl] show ?thesis by auto
next
  case (Inr user)
  obtain ok s1 where lim: "viewRateLimiter E s ipa = (ok, s1)"
    by (cases "viewRateLimiter E s ipa")
  note same = viewRateLimiter_collections[OF lim]
  show ?thesis
  proof (cases ok)
    case False
    with assms Inr lim have
      "out = Sent \<lparr>status = 429,
         body = Text ''Too many views logged from this IP, please try again later.''\<rparr>" "s' = s1"
      by (simp_all add: post_view_def)
    with same show ?thesis by simp
  next
    case True
    with assms Inr lim have h: "view_handler L E s1 idp ipa = (out, s')"
      by (simp add: post_view_def)
    from h same show ?thesis
      by (cases rule: view_handler_cases) auto
  qed
qed

theorem view_ingestion_outcomes_witness:
  "post_view lib0 cfg0 (at 1704067300000) \<lparr>assets = [video0], logs = [], hits = []\<rparr>
     bearer0 ''65a1b2c3d4e5f60718293a4b'' ''10.0.0.1'' =
   (Sent \<lparr>status = 201, body = Json_message ''View logged''\<rparr>,
    \<lparr>assets = [video0],
     logs = [\<lparr>media_id = ''65a1b2c3d4e5f60718293a4b'', viewed_by_ip = ''10.0.0.1'',
              timestamp = 1704067300000\<rparr>],
     hits = [(''10.0.0.1'', 1, 1704067360000)]\<rparr>)
   \<and> \<not> findById_error (at 1704067300000)
   \<and> (\<exists>m\<in>set [video0]. ObjectId lib0 ''65a1b2c3d4e5f60718293a4b'' = Some (doc_id m))"
proof -
  let ?s = "\<lparr>assets = [video0], logs = [], hits = []\<rparr>"
  let ?s' = "\<lparr>assets = [video0],
     logs = [\<lparr>media_id = ''65a1b2c3d4e5f60718293a4b'', viewed_by_ip = ''10.0.0.1'',
              timestamp = 1704067300000\<rparr>],
     hits = [(''10.0.0.1'', 1, 1704067360000)]\<rparr>"
  have au: "authenticateToken lib0 cfg0 (at 1704067300000) bearer0 =
     Inr \<lparr>payload = [(''id'', ''u1''), (''email'', ''a@b.c'')], iat = 1704067200, exp = Some 1704070800\<rparr>"
    by (rule auth_bearer0) (simp add: at_def)
  have lim: "viewRateLimiter (at 1704067300000) ?s ''10.0.0.1'' =
      (True, \<lparr>assets = [video0], logs = [], hits = [(''10.0.0.1'', 1, 1704067360000)]\<rparr>)"
    by (simp add: viewRateLimiter_def at_def windowMs_def max_hits_def)
  have h: "view_handler lib0 (at 1704067300000)
      \<lparr>assets = [video0], logs = [], hits = hs\<rparr>
      ''65a1b2c3d4e5f60718293a4b'' ''10.0.0.1'' =
      (Sent \<lparr>status = 201, body = Json_message ''View logged''\<rparr>,
       \<lparr>assets = [video0],
        logs = [\<lparr>media_id = ''65a1b2c3d4e5f60718293a4b'', viewed_by_ip = ''10.0.0.1'',
                 timestamp = 1704067300000\<rparr>],
        hits = hs\<rparr>)" for hs
    by (simp add: view_handler_def ObjectId_isValid_def lib0_def hex24_def MediaAsset_findById_def
        MediaViewLog_save_def new_MediaViewLog_def at_def video0_def)
  have run: "post_view lib0 cfg0 (at 1704067300000) ?s bearer0 ''65a1b2c3d4e5f60718293a4b''
      ''10.0.0.1'' = (Sent \<lparr>status = 201, body = Json_message ''View logged''\<rparr>, ?s')"
    by (simp add: post_view_def au lim h)
  from view_ingestion_outcomes[OF run] run show ?thesis
    by (auto simp: at_def)
qed

text \<open>
  Claim C4 as stated names 201, 429, 404 and 400 as the only outcomes. Two calls with
  another outcome: with a valid session and an existing asset, a failing append is
  answered 500 (the \<open>catch\<close> block of the handler); without an Authorization header the
  answer is 401 (the middleware in front of the handler).
\<close>

theorem view_ingestion_other_outcomes:
  "fst (post_view lib0 cfg0 ((at 1704067300000)\<lparr>save_error := True\<rparr>)
          \<lparr>assets = [video0], logs = [], hits = []\<rparr>
          bearer0 ''65a1b2c3d4e5f60718293a4b'' ''10.0.0.1'') =
     Sent \<lparr>status = 500, body = Json_message ''Server error''\<rparr>
   \<and> fst (post_view lib0 cfg0 (at 1704067300000)
          \<lparr>assets = [video0], logs = [], hits = []\<rparr>
          None ''65a1b2c3d4e5f60718293a4b'' ''10.0.0.1'') =
     Sent \<lparr>status = 401, body = Json_message ''Unauthorized: No token provided''\<rparr>"
proof -
  have au: "authenticateToken lib0 cfg0 ((at 1704067300000)\<lparr>save_error := True\<rparr>) bearer0 =
     Inr \<lparr>payload = [(''id'', ''u1''), (''email'', ''a@b.c'')], iat = 1704067200, exp = Some 1704070800\<rparr>"
    by (rule auth_bearer0) (simp add: at_def)
  have lim: "viewRateLimiter ((at 1704067300000)\<lparr>save_error := True\<rparr>)
      \<lparr>assets = [video0], logs = [], hits = []\<rparr> ''10.0.0.1'' =
      (True, \<lparr>assets = [video0], logs = [], hits = [(''10.0.0.1'', 1, 1704067360000)]\<rparr>)"
    by (simp add: viewRateLimiter_def at_def windowMs_def max_hits_def)
  have h: "view_handler lib0 ((at 1704067300000)\<lparr>save_error := True\<rparr>)
      \<lparr>assets = [video0], logs = [], hits = hs\<rparr>
      ''65a1b2c3d4e5f60718293a4b'' ''10.0.0.1'' =
      (Sent \<lparr>status = 500, body = Json_message ''Server error''\<rparr>,
       \<lparr>assets = [video0], logs = [], hits = hs\<rparr>)" for hs
    by (simp add: view_handler_def ObjectId_isValid_def lib0_def hex24_def MediaAsset_findById_def
        MediaViewLog_save_def new_MediaViewLog_def at_def video0_def)
  have a: "fst (post_view lib0 cfg0 ((at 1704067300000)\<lparr>save_error := True\<rparr>)
          \<lparr>assets = [video0], logs = [], hits = []\<rparr>
          bearer0 ''65a1b2c3d4e5f60718293a4b'' ''10.0.0.1'') =
     Sent \<lparr>status = 500, body = Json_message ''Server error''\<rparr>"
    by (simp add: post_view_def au lim h)
  have b: "fst (post_view lib0 cfg0 (at 1704067300000)
          \<lparr>assets = [video0], logs = [], hits = []\<rparr>
          None ''65a1b2c3d4e5f60718293a4b'' ''10.0.0.1'') =
     Sent \<lparr>status = 401, body = Json_message ''Unauthorized: No token provided''\<rparr>"
    by (simp add: post_view_def authenticateToken_def header_token_def)
  from a b show ?thesis by simp
qed

section \<open>Issuing a stream link\<close>

text \<open>
  Claim C5. Every request for a stream URL that is answered 200 found the asset, carries
  in its body the URL ending in one token signed for that asset (its id and \<open>file_url\<close>,
  valid 600 seconds), and has appended exactly one view-log entry
  \<open>{media_id, viewed_by_ip, timestamp}\<close> with the asset's id, the requesting client's IP and
  the instant of the request; nothing else of the state has changed.
\<close>

theorem stream_url_issue_logs_view:
  assumes "get_stream_url L C E s idp ipa = (Sent r, s')" and "status r = 200"
  shows "\<exists>m k. m \<in> set (assets s) \<and> ObjectId L idp = Some (doc_id m)
           \<and> STREAM_TOKEN_SECRET C = Some k
           \<and> body r = Json_secure_stream_url
                 (''http://localhost:'' @ PORT C @ ''/stream/'' @
                  jws_encode L (sign_claims (stream_payload m) 600 (now E))
                    (hmac L k (sign_claims (stream_payload m) 600 (now E))))
           \<and> s' = s\<lparr>logs := logs s @
                 [\<lparr>media_id = doc_id m, viewed_by_ip = ipa, timestamp = now E\<rparr>]\<rparr>"
  using assms(1)
proof (cases rule: get_stream_url_cases)
  case (issued m k)
  then show ?thesis by auto
qed (use assms(2) in auto)

lemma stream_url_video0:
  "now E = 1704067300000 \<Longrightarrow> \<not> findById_error E \<Longrightarrow> \<not> save_error E \<Longrightarrow>
   get_stream_url lib0 cfg0 E \<lparr>assets = [video0], logs = ls, hits = hs\<rparr>
     ''65a1b2c3d4e5f60718293a4b'' ''10.0.0.7'' =
   (Sent \<lparr>status = 200, body = Json_secure_stream_url
      (''http://localhost:3000/stream/'' @
       compact (sign_claims (stream_payload video0) 600 1704067300000)
         (keyed ''s3cret'' (sign_claims (stream_payload video0) 600 1704067300000)))\<rparr>,
    \<lparr>assets = [video0],
     logs = ls @ [\<lparr>media_id = ''65a1b2c3d4e5f60718293a4b'', viewed_by_ip = ''10.0.0.7'',
              timestamp = 1704067300000\<rparr>],
     hits = hs\<rparr>)"
  by (simp add: get_stream_url_def ObjectId_isValid_def lib0_def hex24_def cfg0_def
      MediaAsset_findById_def jwt_sign_def MediaViewLog_save_def new_MediaViewLog_def)
     (simp add: video0_def)

theorem stream_url_issue_logs_view_witness:
  "get_stream_url lib0 cfg0 (at 1704067300000) \<lparr>assets = [video0], logs = [], hits = []\<rparr>
     ''65a1b2c3d4e5f60718293a4b'' ''10.0.0.7'' =
   (Sent \<lparr>status = 200, body = Json_secure_stream_url
      (''http://localhost:3000/stream/'' @
       compact (sign_claims (stream_payload video0) 600 1704067300000)
         (keyed ''s3cret'' (sign_claims (stream_payload video0) 600 1704067300000)))\<rparr>,
    \<lparr>assets = [video0],
     logs = [\<lparr>media_id = ''65a1b2c3d4e5f60718293a4b'', viewed_by_ip = ''10.0.0.7'',
              timestamp = 1704067300000\<rparr>],
     hits = []\<rparr>)
   \<and> (\<exists>m k. m \<in> set [video0] \<and> STREAM_TOKEN_SECRET cfg0 = Some k
         \<and> ObjectId lib0 ''65a1b2c3d4e5f60718293a4b'' = Some (doc_id m))"
proof -
  have run: "get_stream_url lib0 cfg0 (at 1704067300000)
      \<lparr>assets = [video0], logs = [], hits = []\<rparr> ''65a1b2c3d4e5f60718293a4b'' ''10.0.0.7'' =
    (Sent \<lparr>status = 200, body = Json_secure_stream_url
      (''http://localhost:3000/stream/'' @
       compact (sign_claims (stream_payload video0) 600 1704067300000)
         (keyed ''s3cret'' (sign_claims (stream_payload video0) 600 1704067300000)))\<rparr>,
    \<lparr>assets = [video0],
     logs = [\<lparr>media_id = ''65a1b2c3d4e5f60718293a4b'', viewed_by_ip = ''10.0.0.7'',
              timestamp = 1704067300000\<rparr>],
     hits = []\<rparr>)"
    using stream_url_video0[of "at 1704067300000" "[]" "[]"] by (simp add: at_def)
  from stream_url_issue_logs_view[OF run] have
    "\<exists>m k. m \<in> set [video0] \<and> STREAM_TOKEN_SECRET cfg0 = Some k
         \<and> ObjectId lib0 ''65a1b2c3d4e5f60718293a4b'' = Some (doc_id m)"
    by auto
  with run show ?thesis by simp
qed

text \<open>
  Claim C10. In the stream-URL handler a body with the signed link is sent only with
  status 200, only when the save succeeded, and then the view log has grown by the entry
  of this request. When the handler has found the asset and signed the token and the save
  fails, the answer is 500 \<open>Server error\<close>; whenever the save fails the state is unchanged
  and the body of the response is a plain message, never the link.
\<close>

theorem stream_url_response_after_append:
  assumes "get_stream_url L C E s idp ipa = (out, s')"
  shows "(\<forall>r u. out = Sent r \<and> body r = Json_secure_stream_url u \<longrightarrow>
            status r = 200 \<and> \<not> save_error E \<and>
            (\<exists>m\<in>set (assets s). logs s' = logs s @
                [\<lparr>media_id = doc_id m, viewed_by_ip = ipa, timestamp = now E\<rparr>]))
       \<and> (save_error E \<longrightarrow> s' = s \<and> (\<exists>r msg. out = Sent r \<and> body r = Json_message msg))
       \<and> (save_error E \<and> (\<exists>m. MediaAsset_findById L E s idp = Inr (Some m))
            \<and> (\<exists>k. STREAM_TOKEN_SECRET C = Some k \<and> k \<noteq> []) \<longrightarrow>
            out = Sent \<lparr>status = 500, body = Json_message ''Server error''\<rparr>)"
  using assms
proof (cases rule: get_stream_url_cases)
  case invalid
  then show ?thesis by (auto simp: MediaAsset_findById_def)
next
  case missing
  then show ?thesis by auto
next
  case failed
  then show ?thesis by auto
next
  case (issued m k)
  then show ?thesis by auto
qed

theorem stream_url_response_after_append_witness:
  "get_stream_url lib0 cfg0 ((at 1704067300000)\<lparr>save_error := True\<rparr>)
     \<lparr>assets = [video0], logs = [], hits = []\<rparr> ''65a1b2c3d4e5f60718293a4b'' ''10.0.0.7'' =
   (Sent \<lparr>status = 500, body = Json_message ''Server error''\<rparr>,
    \<lparr>assets = [video0], logs = [], hits = []\<rparr>)
   \<and> save_error ((at 1704067300000)\<lparr>save_error := True\<rparr>)
   \<and> MediaAsset_findById lib0 ((at 1704067300000)\<lparr>save_error := True\<rparr>)
        \<lparr>assets = [video0], logs = [], hits = []\<rparr> ''65a1b2c3d4e5f60718293a4b'' = Inr (Some video0)
   \<and> STREAM_TOKEN_SECRET cfg0 = Some ''s3cret''"
proof -
  let ?E = "(at 1704067300000)\<lparr>save_error := True\<rparr>"
  let ?s = "\<lparr>assets = [video0], logs = [], hits = []\<rparr>"
  obtain out s' where run: "get_stream_url lib0 cfg0 ?E ?s ''65a1b2c3d4e5f60718293a4b'' ''10.0.0.7'' = (out, s')"
    by (cases "get_stream_url lib0 cfg0 ?E ?s ''65a1b2c3d4e5f60718293a4b'' ''10.0.0.7''")
  have e: "save_error ?E" by simp
  have f: "MediaAsset_findById lib0 ?E ?s ''65a1b2c3d4e5f60718293a4b'' = Inr (Some video0)"
    by (simp add: MediaAsset_findById_def lib0_def hex24_def at_def) (simp add: video0_def)
  have k: "STREAM_TOKEN_SECRET cfg0 = Some ''s3cret''" by (simp add: cfg0_def)
  from stream_url_response_after_append[OF run] e f k
  have "out = Sent \<lparr>status = 500, body = Json_message ''Server error''\<rparr>" "s' = ?s"
    by auto
  with run e f k show ?thesis by simp
qed

section \<open>Every view-log entry belongs to an asset\<close>

lemma post_media_effect:
  assumes "post_media L C E s h t ty u = (out, s')"
  shows "logs s' = logs s \<and> (\<exists>new. assets s' = assets s @ new)"
proof (cases "authenticateToken L C E h")
  case (Inl e)
  with assms show ?thesis by (simp add: post_media_def)
next
  case (Inr user)
  show ?thesis
  proof (cases "falsy t \<or> falsy ty \<or> falsy u \<or> the ty \<notin> set [''video'', ''audio'']")
    case True
    with assms Inr show ?thesis by (auto simp: post_media_def split: if_splits)
  next
    case False
    with assms Inr show ?thesis
      by (auto simp: post_media_def MediaAsset_save_def Let_def split: if_splits)
  qed
qed

lemma post_view_effect:
  assumes "post_view L C E s h idp ipa = (out, s')"
  shows "(logs s' = logs s \<or> (\<exists>l. logs s' = logs s @ [l] \<and> media_id l \<in> doc_id ` set (assets s)))
       \<and> assets s' = assets s"
proof (cases "authenticateToken L C E h")
  case (Inl e)
  with assms show ?thesis by (simp add: post_view_def)
next
  case (Inr user)
  obtain ok s1 where lim: "viewRateLimiter E s ipa = (ok, s1)"
    by (cases "viewRateLimiter E s ipa")
  note same = viewRateLimiter_collections[OF lim]
  show ?thesis
  proof (cases ok)
    case False
    with assms Inr lim same show ?thesis by (auto simp: post_view_def)
  next
    case True
    with assms Inr lim have "view_handler L E s1 idp ipa = (out, s')"
      by (simp add: post_view_def)
    then show ?thesis using same
      by (cases rule: view_handler_cases) auto
  qed
qed

lemma get_stream_url_effect:
  assumes "get_stream_url L C E s idp ipa = (out, s')"
  shows "(logs s' = logs s \<or> (\<exists>l. logs s' = logs s @ [l] \<and> media_id l \<in> doc_id ` set (assets s)))
       \<and> assets s' = assets s"
  using assms by (cases rule: get_stream_url_cases) auto

lemma route_effect:
  assumes "route L C E s rq = (out, s')"
  shows "(logs s' = logs s \<or> (\<exists>l. logs s' = logs s @ [l] \<and> media_id l \<in> doc_id ` set (assets s)))
       \<and> (\<exists>new. assets s' = assets s @ new)"
proof (cases rq)
  case (POST_media h t ty u)
  with assms post_media_effect[of L C E s h t ty u out s'] show ?thesis by simp
next
  case (GET_stream_url idp ipa)
  with assms get_stream_url_effect[of L C E s idp ipa out s'] show ?thesis by simp
next
  case (GET_stream token)
  with assms show ?thesis by auto
next
  case (POST_view h idp ipa)
  with assms post_view_effect[of L C E s h idp ipa out s'] show ?thesis by simp
next
  case (GET_analytics h idp)
  with assms get_analytics_state[of L C E s h idp] show ?thesis by auto
qed

lemma reachable_logs:
  "reachable L C s \<Longrightarrow> \<forall>l\<in>set (logs s). media_id l \<in> doc_id ` set (assets s)"
proof (induction rule: reachable.induct)
  case start
  show ?case by (simp add: initial_def)
next
  case (request s E rq out s')
  from route_effect[OF request.hyps(2)] obtain new where
    a: "assets s' = assets s @ new" and
    l: "logs s' = logs s \<or> (\<exists>l. logs s' = logs s @ [l] \<and> media_id l \<in> doc_id ` set (assets s))"
    by blast
  from a have sub: "doc_id ` set (assets s) \<subseteq> doc_id ` set (assets s')" by auto
  from l request.IH have "\<forall>l\<in>set (logs s'). media_id l \<in> doc_id ` set (assets s)" by auto
  with sub show ?case by blast
qed

text \<open>
  Claim C6. In every state the service reaches from the empty collections, each view-log
  entry carries the id of a stored asset; and whatever request comes next, it leaves the
  view log as it is or appends one entry whose \<open>media_id\<close> is the id of an asset stored
  at that moment. (No route removes an asset.)
\<close>

theorem view_logs_reference_assets:
  assumes "reachable L C s"
  shows "(\<forall>l\<in>set (logs s). media_id l \<in> doc_id ` set (assets s))
       \<and> (\<forall>E rq out s'. route L C E s rq = (out, s') \<longrightarrow>
             logs s' = logs s \<or>
             (\<exists>l. logs s' = logs s @ [l] \<and> media_id l \<in> doc_id ` set (assets s)))"
  using reachable_logs[OF assms] route_effect by blast

theorem view_logs_reference_assets_witness:
  "reachable lib0 cfg0
     \<lparr>assets = [video0],
      logs = [\<lparr>media_id = ''65a1b2c3d4e5f60718293a4b'', viewed_by_ip = ''10.0.0.7'',
               timestamp = 1704067300000\<rparr>],
      hits = []\<rparr>
   \<and> ''65a1b2c3d4e5f60718293a4b'' \<in> doc_id ` set [video0]"
proof -
  let ?s1 = "\<lparr>assets = [video0], logs = [], hits = []\<rparr>"
  let ?s2 = "\<lparr>assets = [video0],
      logs = [\<lparr>media_id = ''65a1b2c3d4e5f60718293a4b'', viewed_by_ip = ''10.0.0.7'',
               timestamp = 1704067300000\<rparr>],
      hits = []\<rparr>"
  have au: "authenticateToken lib0 cfg0 (at 1704067250000) bearer0 =
     Inr \<lparr>payload = [(''id'', ''u1''), (''email'', ''a@b.c'')], iat = 1704067200, exp = Some 1704070800\<rparr>"
    by (rule auth_bearer0) (simp add: at_def)
  have "route lib0 cfg0 (at 1704067250000) initial
      (POST_media bearer0 (Some ''Test Video'') (Some ''video'') (Some ''http://cdn.example/v.mp4''))
      = (Sent \<lparr>status = 201, body = Json_media video0\<rparr>, ?s1)"
    by (simp add: post_media_def au falsy_def MediaAsset_save_def initial_def)
       (simp add: at_def video0_def Let_def)
  with reachable.start have r1: "reachable lib0 cfg0 ?s1" by (rule reachable.request)
  have "route lib0 cfg0 (at 1704067300000) ?s1
      (GET_stream_url ''65a1b2c3d4e5f60718293a4b'' ''10.0.0.7'') =
    (Sent \<lparr>status = 200, body = Json_secure_stream_url
      (''http://localhost:3000/stream/'' @
       compact (sign_claims (stream_payload video0) 600 1704067300000)
         (keyed ''s3cret'' (sign_claims (stream_payload video0) 600 1704067300000)))\<rparr>, ?s2)"
    using stream_url_video0[of "at 1704067300000" "[]" "[]"] by (simp add: at_def)
  with r1 have r2: "reachable lib0 cfg0 ?s2" by (rule reachable.request)
  from view_logs_reference_assets[OF r2] have "''65a1b2c3d4e5f60718293a4b'' \<in> doc_id ` set [video0]"
    by simp
  with r2 show ?thesis by simp
qed

section \<open>Token verification\<close>

lemma get_stream_sent:
  "\<exists>r. get_stream L C E token = Sent r \<and> (status r = 200 \<or> status r = 403)"
  by (cases "jwt_verify L token (STREAM_TOKEN_SECRET C) (now E)") (simp_all add: get_stream_def)

lemma jwt_verify_invalid:
  assumes "token = [] \<or> jws_decode L token = None
         \<or> (\<exists>c sg. jws_decode L token = Some (c, sg) \<and>
               (Some sg \<noteq> map_option (\<lambda>k. hmac L k c) secret
                \<or> (\<exists>e. exp c = Some e \<and> e \<le> t div 1000)))"
  shows "jwt_verify L token secret t = Inl JsonWebTokenError
       \<or> jwt_verify L token secret t = Inl TokenExpiredError"
proof (cases "token = [] \<or> jws_decode L token = None")
  case True
  then show ?thesis by (auto simp: jwt_verify_def)
next
  case False
  with assms obtain c sg where d: "jws_decode L token = Some (c, sg)" and
    bad: "Some sg \<noteq> map_option (\<lambda>k. hmac L k c) secret \<or> (\<exists>e. exp c = Some e \<and> e \<le> t div 1000)"
    by blast
  show ?thesis
  proof (cases secret)
    case None
    with d False show ?thesis by (simp add: jwt_verify_def)
  next
    case (Some k)
    with d False bad show ?thesis
      by (cases "exp c") (auto simp: jwt_verify_def)
  qed
qed

text \<open>
  Claim C7. A token that is empty or malformed, whose signature is not the one the
  configured secret gives for its claims (a tampered token, another secret, or no secret),
  or that is presented at or after its expiry, makes \<open>jwt.verify\<close> hand an error value to
  its callback. The stream route then answers 403, and so does the authentication
  middleware for a header carrying that token. For every token whatsoever the stream
  route sends a response, of status 200 or 403; it never rejects.
\<close>

theorem token_verification_failures:
  assumes "token = [] \<or> jws_decode L token = None
         \<or> (\<exists>c sg. jws_decode L token = Some (c, sg) \<and>
               (Some sg \<noteq> map_option (\<lambda>k. hmac L k c) secret
                \<or> (\<exists>e. exp c = Some e \<and> e \<le> now E div 1000)))"
  shows "(jwt_verify L token secret (now E) = Inl JsonWebTokenError
          \<or> jwt_verify L token secret (now E) = Inl TokenExpiredError)
       \<and> (STREAM_TOKEN_SECRET C = secret \<longrightarrow>
            get_stream L C E token =
              Sent \<lparr>status = 403, body = Text ''Forbidden: Invalid or expired stream link.''\<rparr>)
       \<and> (jwtSecret C = secret \<and> header_token authHeader = Some token \<and> token \<noteq> [] \<longrightarrow>
            authenticateToken L C E authHeader =
              Inl \<lparr>status = 403, body = Json_message ''Forbidden: Invalid token''\<rparr>)
       \<and> (\<forall>any. \<exists>r. get_stream L C E any = Sent r \<and> (status r = 200 \<or> status r = 403))"
proof -
  from jwt_verify_invalid[OF assms] obtain err where
    v: "jwt_verify L token secret (now E) = Inl err"
       "err = JsonWebTokenError \<or> err = TokenExpiredError"
    by blast
  from v have "STREAM_TOKEN_SECRET C = secret \<longrightarrow>
      get_stream L C E token =
        Sent \<lparr>status = 403, body = Text ''Forbidden: Invalid or expired stream link.''\<rparr>"
    by (simp add: get_stream_def)
  moreover from v have "jwtSecret C = secret \<and> header_token authHeader = Some token \<and> token \<noteq> [] \<longrightarrow>
      authenticateToken L C E authHeader =
        Inl \<lparr>status = 403, body = Json_message ''Forbidden: Invalid token''\<rparr>"
    by (simp add: authenticateToken_def)
  ultimately show ?thesis using v get_stream_sent by blast
qed

theorem token_verification_failures_witness:
  "jws_decode lib0 ''not.a.token'' = None
   \<and> get_stream lib0 cfg0 (at 1704067300000) ''not.a.token'' =
       Sent \<lparr>status = 403, body = Text ''Forbidden: Invalid or expired stream link.''\<rparr>
   \<and> header_token (Some ''Bearer not.a.token'') = Some ''not.a.token''
   \<and> authenticateToken lib0 cfg0 (at 1704067300000) (Some ''Bearer not.a.token'') =
       Inl \<lparr>status = 403, body = Json_message ''Forbidden: Invalid token''\<rparr>"
proof -
  have d: "jws_decode lib0 ''not.a.token'' = None"
    by (simp add: lib0_def parse_def digit_value_def)
  then have bad: "''not.a.token'' = [] \<or> jws_decode lib0 ''not.a.token'' = None
         \<or> (\<exists>c sg. jws_decode lib0 ''not.a.token'' = Some (c, sg) \<and>
               (Some sg \<noteq> map_option (\<lambda>k. hmac lib0 k c) secret
                \<or> (\<exists>e. exp c = Some e \<and> e \<le> now (at 1704067300000) div 1000)))" for secret
    by simp
  have h: "header_token (Some ''Bearer not.a.token'') = Some ''not.a.token''"
    by (simp add: header_token_def second_def)
  from token_verification_failures[OF bad, of "STREAM_TOKEN_SECRET cfg0" cfg0 "Some ''Bearer not.a.token''"]
  have a: "get_stream lib0 cfg0 (at 1704067300000) ''not.a.token'' =
       Sent \<lparr>status = 403, body = Text ''Forbidden: Invalid or expired stream link.''\<rparr>"
    by simp
  from token_verification_failures[OF bad, of "jwtSecret cfg0" cfg0 "Some ''Bearer not.a.token''"] h
  have b: "authenticateToken lib0 cfg0 (at 1704067300000) (Some ''Bearer not.a.token'') =
       Inl \<lparr>status = 403, body = Json_message ''Forbidden: Invalid token''\<rparr>"
    by simp
  from d a h b show ?thesis by simp
qed

section \<open>The Authorization header\<close>

lemma split_space_no_space: "CHR '' '' \<notin> set a \<Longrightarrow> split_space a = [a]"
  by (induction a) auto

lemma split_space_append:
  "CHR '' '' \<notin> set a \<Longrightarrow> split_space (a @ CHR '' '' # r) = a # split_space r"
  by (induction a) auto

lemma split_space_not_Nil: "split_space r \<noteq> []"
  by (induction r) (auto split: list.splits)

lemma header_token_no_space:
  "CHR '' '' \<notin> set h \<Longrightarrow> header_token (Some h) = None \<or> header_token (Some h) = Some []"
  by (simp add: header_token_def split_space_no_space second_def)

lemma header_token_second:
  assumes "CHR '' '' \<notin> set scheme" and "CHR '' '' \<notin> set tok"
  shows "header_token (Some (scheme @ '' '' @ tok)) = Some tok"
    and "header_token (Some (scheme @ '' '' @ tok @ '' '' @ rest)) = Some tok"
  using assms
  by (simp_all add: header_token_def split_space_append split_space_no_space second_def)

text \<open>
  Claim C9. The middleware takes as credential the second of the segments into which
  single space characters cut the Authorization header. A header without a space (a bare
  token, say), like a missing header, is answered 401 as a missing credential, not 403.
  The first segment is never looked at: a header made of any word, a space and a token
  that verifies under the session secret authenticates as that token's user, and what
  the middleware does depends on the second segment alone, whatever the first segment and
  whatever follows the second.
\<close>

theorem authorization_second_segment:
  "(CHR '' '' \<notin> set h \<longrightarrow>
      authenticateToken L C E (Some h) =
        Inl \<lparr>status = 401, body = Json_message ''Unauthorized: No token provided''\<rparr>)
   \<and> authenticateToken L C E None =
        Inl \<lparr>status = 401, body = Json_message ''Unauthorized: No token provided''\<rparr>
   \<and> (CHR '' '' \<notin> set scheme \<and> CHR '' '' \<notin> set tok
        \<and> jwt_verify L tok (jwtSecret C) (now E) = Inr user \<longrightarrow>
      authenticateToken L C E (Some (scheme @ '' '' @ tok)) = Inr user)
   \<and> (CHR '' '' \<notin> set scheme \<and> CHR '' '' \<notin> set scheme' \<and> CHR '' '' \<notin> set tok \<longrightarrow>
      authenticateToken L C E (Some (scheme @ '' '' @ tok @ '' '' @ rest)) =
        authenticateToken L C E (Some (scheme' @ '' '' @ tok))
      \<and> authenticateToken L C E (Some (scheme @ '' '' @ tok)) =
        authenticateToken L C E (Some (scheme' @ '' '' @ tok)))"
proof -
  have a: "CHR '' '' \<notin> set h \<longrightarrow>
      authenticateToken L C E (Some h) =
        Inl \<lparr>status = 401, body = Json_message ''Unauthorized: No token provided''\<rparr>"
    using header_token_no_space[of h] by (auto simp: authenticateToken_def)
  have b: "authenticateToken L C E None =
        Inl \<lparr>status = 401, body = Json_message ''Unauthorized: No token provided''\<rparr>"
    by (simp add: authenticateToken_def header_token_def)
  have c: "CHR '' '' \<notin> set scheme \<and> CHR '' '' \<notin> set tok
        \<and> jwt_verify L tok (jwtSecret C) (now E) = Inr user \<longrightarrow>
      authenticateToken L C E (Some (scheme @ '' '' @ tok)) = Inr user"
  proof (intro impI, elim conjE)
    assume s: "CHR '' '' \<notin> set scheme" "CHR '' '' \<notin> set tok"
      and v: "jwt_verify L tok (jwtSecret C) (now E) = Inr user"
    from v have "tok \<noteq> []" by (auto simp: jwt_verify_def split: if_splits)
    with v header_token_second(1)[OF s] show
      "authenticateToken L C E (Some (scheme @ '' '' @ tok)) = Inr user"
      by (simp add: authenticateToken_def)
  qed
  have d: "CHR '' '' \<notin> set scheme \<and> CHR '' '' \<notin> set scheme' \<and> CHR '' '' \<notin> set tok \<longrightarrow>
      authenticateToken L C E (Some (scheme @ '' '' @ tok @ '' '' @ rest)) =
        authenticateToken L C E (Some (scheme' @ '' '' @ tok))
      \<and> authenticateToken L C E (Some (scheme @ '' '' @ tok)) =
        authenticateToken L C E (Some (scheme' @ '' '' @ tok))"
    using header_token_second(2)[of scheme tok rest] header_token_second(1)[of scheme tok]
      header_token_second(1)[of scheme' tok]
    by (auto simp: authenticateToken_def simp del: append_assoc append.simps)
  from a b c d show ?thesis by blast
qed

theorem authorization_second_segment_witness:
  "authenticateToken lib0 cfg0 (at 1704067300000) (Some session0) =
     Inl \<lparr>status = 401, body = Json_message ''Unauthorized: No token provided''\<rparr>
   \<and> jwt_verify lib0 session0 (jwtSecret cfg0) (now (at 1704067300000)) =
       Inr \<lparr>payload = [(''id'', ''u1''), (''email'', ''a@b.c'')], iat = 1704067200,
            exp = Some 1704070800\<rparr>
   \<and> authenticateToken lib0 cfg0 (at 1704067300000) (Some (''Anything '' @ session0)) =
       Inr \<lparr>payload = [(''id'', ''u1''), (''email'', ''a@b.c'')], iat = 1704067200,
            exp = Some 1704070800\<rparr>"
proof -
  let ?u = "\<lparr>payload = [(''id'', ''u1''), (''email'', ''a@b.c'')], iat = 1704067200,
            exp = Some 1704070800\<rparr>"
  have sp: "CHR '' '' \<notin> set session0" by (rule session0_space)
  have sc: "CHR '' '' \<notin> set ''Anything''" by simp
  have v: "jwt_verify lib0 session0 (jwtSecret cfg0) (now (at 1704067300000)) = Inr ?u"
    by (simp add: cfg0_def at_def verify_session0)
  note t = authorization_second_segment[of session0 lib0 cfg0 "at 1704067300000"
      "''Anything''" session0 ?u "''Anything''" "[]"]
  from t sp have a: "authenticateToken lib0 cfg0 (at 1704067300000) (Some session0) =
     Inl \<lparr>status = 401, body = Json_message ''Unauthorized: No token provided''\<rparr>"
    by blast
  from t sp sc v have "authenticateToken lib0 cfg0 (at 1704067300000)
      (Some (''Anything'' @ '' '' @ session0)) = Inr ?u"
    by blast
  then have b: "authenticateToken lib0 cfg0 (at 1704067300000) (Some (''Anything '' @ session0)) = Inr ?u"
    by simp
  from a v b show ?thesis by simp
qed

section \<open>The concrete token serialisation parses back\<close>

lemma digit_value_digit: "digit_value (digit d) = Some (d mod 10)"
proof -
  have "d mod 10 < 10" by simp
  then have "d mod 10 = 0 \<or> d mod 10 = 1 \<or> d mod 10 = 2 \<or> d mod 10 = 3 \<or> d mod 10 = 4
      \<or> d mod 10 = 5 \<or> d mod 10 = 6 \<or> d mod 10 = 7 \<or> d mod 10 = 8 \<or> d mod 10 = 9"
    by arith
  then have "d mod 10 \<in> {0, 1, 2, 3, 4, 5, 6, 7, 8, 9}" by blast
  then show ?thesis
    unfolding digit_def by (elim insertE emptyE) (simp_all add: digit_value_def)
qed

lemma read_nat_snoc:
  "read_nat acc (xs @ [digit d]) = map_option (\<lambda>v. 10 * v + d mod 10) (read_nat acc xs)"
  by (induction xs arbitrary: acc) (simp_all add: digit_value_digit split: option.splits)

lemma read_show_nat: "read_nat 0 (show_nat n) = Some n"
proof (induction n rule: show_nat.induct)
  case (1 n)
  show ?case
  proof (cases "n < 10")
    case True
    then show ?thesis by (simp add: show_nat.simps[of n] digit_value_digit)
  next
    case False
    with "1.IH" show ?thesis by (simp add: show_nat.simps[of n] read_nat_snoc)
  qed
qed

lemma show_nat_not_Nil: "show_nat n \<noteq> []"
  by (simp add: show_nat.simps[of n])

lemma escape_no_dot: "CHR ''.'' \<notin> set (escape f)"
  by (induction f) auto

lemma escape_not_Nil: "dotted (f # fs) \<noteq> []"
  by (simp add: dotted_def)

lemma unescape_plain: "c \<noteq> CHR ''%'' \<Longrightarrow> unescape (c # xs) = c # unescape xs"
  by (cases xs) simp_all

lemma unescape_escape: "unescape (escape f) = f"
  by (induction f) (simp_all add: unescape_plain)

lemma fields_step:
  "CHR ''.'' \<notin> set x \<Longrightarrow> fields acc (x @ CHR ''.'' # r) = unescape (rev acc @ x) # fields [] r"
  by (induction x arbitrary: acc) auto

lemma fields_dotted: "fields [] (dotted fs) = fs"
proof (induction fs)
  case Nil
  show ?case by (simp add: dotted_def)
next
  case (Cons f fs)
  have "dotted (f # fs) = escape f @ CHR ''.'' # dotted fs" by (simp add: dotted_def)
  with fields_step[OF escape_no_dot, of "[]" f "dotted fs"] Cons show ?case
    by (simp add: unescape_escape)
qed

lemma pairs_flat: "pairs (concat (map (\<lambda>(k, v). [k, v]) p)) = p"
  by (induction p) auto

lemma parse_compact: "parse (compact c sg) = Some (c, sg)"
proof (cases "exp c")
  case None
  then show ?thesis
    by (simp add: parse_def compact_def fields_dotted read_show_nat show_nat_not_Nil pairs_flat)
next
  case (Some e)
  then show ?thesis
    by (simp add: parse_def compact_def fields_dotted read_show_nat show_nat_not_Nil pairs_flat)
qed

lemma compact_not_Nil: "compact c sg \<noteq> []"
  by (simp add: compact_def dotted_def)

section \<open>Life of a stream token\<close>

lemma verify_signed:
  assumes "jws_decode L (jws_encode L c (hmac L k c)) = Some (c, hmac L k c)"
      and "jws_encode L c (hmac L k c) \<noteq> []" and "k \<noteq> []" and "exp c = Some e"
  shows "jwt_verify L (jws_encode L c (hmac L k c)) (Some k) t =
           (if t div 1000 < e then Inr c else Inl TokenExpiredError)"
  using assms by (simp add: jwt_verify_def)

text \<open>
  Claim C3. Let a request for a stream URL be answered 200 with a URL, and let the token
  serialisation parse back what it serialises. Then the URL ends in a token for a stored
  asset with the requested id, and presenting this token to the stream route, in any state
  and at any instant, leaves the state alone and is answered as follows. The token's
  \<open>iat\<close> is the instant of issuance in whole seconds, \<open>now div 1000\<close>. At every instant
  before \<open>iat\<close> plus 600 seconds the answer is 200 with the text that grants access to
  exactly the asset's \<open>file_url\<close>; at that instant and at every later one it is 403.
  Nothing but the clock enters, so the answer is the same however often the token has
  been presented before.
\<close>

theorem stream_token_lifetime:
  assumes "get_stream_url L C E s idp ipa =
             (Sent \<lparr>status = 200, body = Json_secure_stream_url url\<rparr>, s')"
      and "\<And>c sg. jws_decode L (jws_encode L c sg) = Some (c, sg)"
      and "\<And>c sg. jws_encode L c sg \<noteq> []"
  shows "\<exists>m token. m \<in> set (assets s) \<and> ObjectId L idp = Some (doc_id m)
           \<and> url = ''http://localhost:'' @ PORT C @ ''/stream/'' @ token
           \<and> (\<forall>E' s''. route L C E' s'' (GET_stream token) =
                 (if now E' < (now E div 1000) * 1000 + 600000
                  then Sent \<lparr>status = 200,
                         body = Text (''Access granted to stream file: '' @ file_url m)\<rparr>
                  else Sent \<lparr>status = 403,
                         body = Text ''Forbidden: Invalid or expired stream link.''\<rparr>,
                  s''))"
  using assms(1)
proof (cases rule: get_stream_url_cases)
  case (issued m k)
  let ?c = "sign_claims (stream_payload m) 600 (now E)"
  let ?token = "jws_encode L ?c (hmac L k ?c)"
  have e: "exp ?c = Some (now E div 1000 + 600)" by (simp add: sign_claims_def)
  have v: "jwt_verify L ?token (STREAM_TOKEN_SECRET C) t =
      (if t div 1000 < now E div 1000 + 600 then Inr ?c else Inl TokenExpiredError)" for t
    using verify_signed[OF assms(2) assms(3) issued(6) e] issued(5) by simp
  have ms: "(t div 1000 < now E div 1000 + 600) = (t < (now E div 1000) * 1000 + 600000)" for t
    by (simp add: div_less_iff_less_mult algebra_simps)
  have f: "map_of (payload ?c) ''fileUrl'' = Some (file_url m)"
    by (simp add: sign_claims_def stream_payload_def)
  have "route L C E' s'' (GET_stream ?token) =
      (if now E' < (now E div 1000) * 1000 + 600000
       then Sent \<lparr>status = 200, body = Text (''Access granted to stream file: '' @ file_url m)\<rparr>
       else Sent \<lparr>status = 403, body = Text ''Forbidden: Invalid or expired stream link.''\<rparr>,
       s'')" for E' s''
    by (simp add: get_stream_def v ms f del: map_of.simps)
  moreover from issued(8) have "url = ''http://localhost:'' @ PORT C @ ''/stream/'' @ ?token"
    by simp
  ultimately show ?thesis using issued(1,2) by blast
qed simp_all

theorem stream_token_lifetime_witness:
  "get_stream_url lib0 cfg0 (at 1704067300000) \<lparr>assets = [video0], logs = [], hits = []\<rparr>
     ''65a1b2c3d4e5f60718293a4b'' ''10.0.0.7'' =
   (Sent \<lparr>status = 200, body = Json_secure_stream_url
      (''http://localhost:3000/stream/'' @
       compact (sign_claims (stream_payload video0) 600 1704067300000)
         (keyed ''s3cret'' (sign_claims (stream_payload video0) 600 1704067300000)))\<rparr>,
    \<lparr>assets = [video0],
     logs = [\<lparr>media_id = ''65a1b2c3d4e5f60718293a4b'', viewed_by_ip = ''10.0.0.7'',
              timestamp = 1704067300000\<rparr>],
     hits = []\<rparr>)
   \<and> route lib0 cfg0 (at 1704067899999) initial
       (GET_stream (compact (sign_claims (stream_payload video0) 600 1704067300000)
         (keyed ''s3cret'' (sign_claims (stream_payload video0) 600 1704067300000)))) =
     (Sent \<lparr>status = 200,
            body = Text ''Access granted to stream file: http://cdn.example/v.mp4''\<rparr>, initial)
   \<and> route lib0 cfg0 (at 1704067900000) initial
       (GET_stream (compact (sign_claims (stream_payload video0) 600 1704067300000)
         (keyed ''s3cret'' (sign_claims (stream_payload video0) 600 1704067300000)))) =
     (Sent \<lparr>status = 403, body = Text ''Forbidden: Invalid or expired stream link.''\<rparr>,
      initial)"
proof -
  let ?tok = "compact (sign_claims (stream_payload video0) 600 1704067300000)
         (keyed ''s3cret'' (sign_claims (stream_payload video0) 600 1704067300000))"
  have run: "get_stream_url lib0 cfg0 (at 1704067300000)
      \<lparr>assets = [video0], logs = [], hits = []\<rparr> ''65a1b2c3d4e5f60718293a4b'' ''10.0.0.7'' =
    (Sent \<lparr>status = 200, body = Json_secure_stream_url
      (''http://localhost:3000/stream/'' @ ?tok)\<rparr>,
    \<lparr>assets = [video0],
     logs = [\<lparr>media_id = ''65a1b2c3d4e5f60718293a4b'', viewed_by_ip = ''10.0.0.7'',
              timestamp = 1704067300000\<rparr>],
     hits = []\<rparr>)"
    using stream_url_video0[of "at 1704067300000" "[]" "[]"] by (simp add: at_def)
  have rt: "jws_decode lib0 (jws_encode lib0 c sg) = Some (c, sg)" for c sg
    by (simp add: lib0_def parse_compact)
  have ne: "jws_encode lib0 c sg \<noteq> []" for c sg
    by (simp add: lib0_def compact_not_Nil)
  from stream_token_lifetime[OF run rt ne] obtain m token where
    m: "m \<in> set (assets \<lparr>assets = [video0], logs = [], hits = []\<rparr>)" and
    u: "''http://localhost:3000/stream/'' @ ?tok = ''http://localhost:'' @ PORT cfg0 @ ''/stream/'' @ token" and
    r: "\<And>E' s''. route lib0 cfg0 E' s'' (GET_stream token) =
          (if now E' < (now (at 1704067300000) div 1000) * 1000 + 600000
           then Sent \<lparr>status = 200,
                  body = Text (''Access granted to stream file: '' @ file_url m)\<rparr>
           else Sent \<lparr>status = 403,
                  body = Text ''Forbidden: Invalid or expired stream link.''\<rparr>,
           s'')"
    by blast
  from m have mv: "m = video0" by simp
  from u have tk: "token = ?tok" by (simp add: cfg0_def)
  have a: "route lib0 cfg0 (at 1704067899999) initial (GET_stream ?tok) =
     (Sent \<lparr>status = 200,
            body = Text ''Access granted to stream file: http://cdn.example/v.mp4''\<rparr>, initial)"
    using r[of "at 1704067899999" initial] unfolding tk mv
    by (simp add: at_def video0_def)
  have b: "route lib0 cfg0 (at 1704067900000) initial (GET_stream ?tok) =
     (Sent \<lparr>status = 403, body = Text ''Forbidden: Invalid or expired stream link.''\<rparr>,
      initial)"
    using r[of "at 1704067900000" initial] unfolding tk mv
    by (simp add: at_def)
  from run a b show ?thesis by simp
qed

section \<open>Analytics between ingestions\<close>

lemma day_count_summarize:
  "day_count (summarize ls) day = length (filter (\<lambda>l. day_of l = day) ls)"
  unfolding day_count_def views_per_day_fold bump_all_lookup
  by (simp add: filter_map comp_def)

lemma summarize_snoc:
  "total_views (summarize (ls @ [l])) = total_views (summarize ls) + 1"
  "unique_ips (summarize ls) \<le> unique_ips (summarize (ls @ [l]))"
  "unique_ips (summarize (ls @ [l])) \<le> unique_ips (summarize ls) + 1"
  "day_count (summarize (ls @ [l])) day =
     day_count (summarize ls) day + (if day_of l = day then 1 else 0)"
  "fst ` set (views_per_day (summarize ls)) \<subseteq> fst ` set (views_per_day (summarize (ls @ [l])))"
proof -
  show "total_views (summarize (ls @ [l])) = total_views (summarize ls) + 1"
    by (simp add: summarize_def)
  have u: "unique_ips (summarize xs) = card (viewed_by_ip ` set xs)" for xs
    by (simp add: summarize_def card_set flip: set_map)
  show "unique_ips (summarize ls) \<le> unique_ips (summarize (ls @ [l]))"
    unfolding u by (simp add: card_insert_le)
  show "unique_ips (summarize (ls @ [l])) \<le> unique_ips (summarize ls) + 1"
    unfolding u by (simp add: card_insert_if)
  show "day_count (summarize (ls @ [l])) day =
     day_count (summarize ls) day + (if day_of l = day then 1 else 0)"
    by (simp add: day_count_summarize)
  show "fst ` set (views_per_day (summarize ls)) \<subseteq> fst ` set (views_per_day (summarize (ls @ [l])))"
    by (auto simp: views_per_day_fold bump_all_keys bump_key_set)
qed

lemma post_view_201:
  assumes "post_view L C E s h idp ipa = (Sent r, s')" and "status r = 201"
  shows "\<exists>m\<in>set (assets s). ObjectId L idp = Some (doc_id m) \<and>
           logs s' = logs s @ [\<lparr>media_id = doc_id m, viewed_by_ip = ipa, timestamp = now E\<rparr>]"
proof (cases "authenticateToken L C E h")
  case (Inl e)
  with assms(1) have "r = e" by (simp add: post_view_def)
  with assms(2) authenticateToken_status[OF Inl] show ?thesis by simp
next
  case (Inr user)
  obtain ok s1 where lim: "viewRateLimiter E s ipa = (ok, s1)"
    by (cases "viewRateLimiter E s ipa")
  note same = viewRateLimiter_collections[OF lim]
  show ?thesis
  proof (cases ok)
    case False
    with assms Inr lim show ?thesis by (auto simp: post_view_def)
  next
    case True
    with assms(1) Inr lim have "view_handler L E s1 idp ipa = (Sent r, s')"
      by (simp add: post_view_def)
    then show ?thesis using same assms(2)
      by (cases rule: view_handler_cases) auto
  qed
qed

text \<open>
  Claim C2. Take four successive requests on one asset id: analytics, analytics again,
  an accepted view ingestion, analytics once more; the analytics calls are answered 200.
  The analytics calls leave the state untouched, so the second summary is the first: the
  summary is a function of the stored entries alone. After the ingestion \<open>total_views\<close>
  is one more, \<open>unique_ips\<close> is the same or one more, every day's count is the same or
  one more (one more exactly for the day of the ingestion), and every day that had a key
  still has one.
\<close>

theorem analytics_pure_and_monotone:
  assumes "get_analytics L C E1 s h1 idp = (Sent \<lparr>status = 200, body = Json_analytics a1\<rparr>, s1)"
      and "get_analytics L C E2 s1 h2 idp = (Sent \<lparr>status = 200, body = Json_analytics a2\<rparr>, s2)"
      and "post_view L C E3 s2 h3 idp ipa =
             (Sent \<lparr>status = 201, body = Json_message ''View logged''\<rparr>, s3)"
      and "get_analytics L C E4 s3 h4 idp = (Sent \<lparr>status = 200, body = Json_analytics a3\<rparr>, s4)"
  shows "s1 = s \<and> s2 = s \<and> a2 = a1 \<and> s4 = s3
       \<and> total_views a3 = total_views a1 + 1
       \<and> unique_ips a1 \<le> unique_ips a3 \<and> unique_ips a3 \<le> unique_ips a1 + 1
       \<and> (\<forall>day. day_count a3 day =
             day_count a1 day + (if take 10 (toISOString (now E3)) = day then 1 else 0))
       \<and> fst ` set (views_per_day a1) \<subseteq> fst ` set (views_per_day a3)"
proof -
  from get_analytics_200[OF assms(1)] obtain oid where
    o: "ObjectId L idp = Some oid" and
    a1: "a1 = summarize (filter (\<lambda>l. media_id l = oid) (logs s))" and s1: "s1 = s"
    by auto
  from get_analytics_200[OF assms(2)] o s1 have
    a2: "a2 = summarize (filter (\<lambda>l. media_id l = oid) (logs s))" and s2: "s2 = s"
    by auto
  from post_view_201[OF assms(3)] o obtain
    l3: "logs s3 = logs s @ [\<lparr>media_id = oid, viewed_by_ip = ipa, timestamp = now E3\<rparr>]"
    unfolding s2 by auto
  let ?l = "\<lparr>media_id = oid, viewed_by_ip = ipa, timestamp = now E3\<rparr>"
  let ?rows = "filter (\<lambda>l. media_id l = oid) (logs s)"
  from get_analytics_200[OF assms(4)] o l3 have
    a3: "a3 = summarize (?rows @ [?l])" and s4: "s4 = s3"
    by auto
  have d: "day_of ?l = take 10 (toISOString (now E3))" by (simp add: day_of_def)
  from summarize_snoc[of ?rows ?l] show ?thesis
    unfolding a1 a2 a3 s1 s2 s4 d by simp
qed

lemma analytics_handler_video0:
  "\<not> findById_error E \<Longrightarrow> \<not> find_error E \<Longrightarrow>
   analytics_handler lib0 E \<lparr>assets = [video0], logs = ls, hits = hs\<rparr>
     ''65a1b2c3d4e5f60718293a4b'' =
   (Sent \<lparr>status = 200, body = Json_analytics
       (summarize (filter (\<lambda>l. media_id l = ''65a1b2c3d4e5f60718293a4b'') ls))\<rparr>,
    \<lparr>assets = [video0], logs = ls, hits = hs\<rparr>)"
  by (simp add: analytics_handler_def ObjectId_isValid_def
      MediaAsset_findById_def MediaViewLog_find_def lib0_def hex24_def)
     (simp add: video0_def)

lemma analytics_video0:
  "now E div 1000 < 1704070800 \<Longrightarrow> \<not> findById_error E \<Longrightarrow> \<not> find_error E \<Longrightarrow>
   get_analytics lib0 cfg0 E \<lparr>assets = [video0], logs = ls, hits = hs\<rparr> bearer0
     ''65a1b2c3d4e5f60718293a4b'' =
   (Sent \<lparr>status = 200, body = Json_analytics
       (summarize (filter (\<lambda>l. media_id l = ''65a1b2c3d4e5f60718293a4b'') ls))\<rparr>,
    \<lparr>assets = [video0], logs = ls, hits = hs\<rparr>)"
  by (simp add: get_analytics_def auth_bearer0 analytics_handler_video0)

theorem analytics_pure_and_monotone_witness:
  "get_analytics lib0 cfg0 (at 1704067210000)
     \<lparr>assets = [video0],
      logs = [\<lparr>media_id = ''65a1b2c3d4e5f60718293a4b'', viewed_by_ip = ''10.0.0.1'',
               timestamp = 1703980900000\<rparr>],
      hits = []\<rparr> bearer0 ''65a1b2c3d4e5f60718293a4b'' =
     (Sent \<lparr>status = 200, body = Json_analytics
         \<lparr>total_views = 1, unique_ips = 1, views_per_day = [(''2023-12-31'', 1)]\<rparr>\<rparr>,
      \<lparr>assets = [video0],
       logs = [\<lparr>media_id = ''65a1b2c3d4e5f60718293a4b'', viewed_by_ip = ''10.0.0.1'',
                timestamp = 1703980900000\<rparr>],
       hits = []\<rparr>)
   \<and> post_view lib0 cfg0 (at 1704067300000)
     \<lparr>assets = [video0],
      logs = [\<lparr>media_id = ''65a1b2c3d4e5f60718293a4b'', viewed_by_ip = ''10.0.0.1'',
               timestamp = 1703980900000\<rparr>],
      hits = []\<rparr> bearer0 ''65a1b2c3d4e5f60718293a4b'' ''10.0.0.2'' =
     (Sent \<lparr>status = 201, body = Json_message ''View logged''\<rparr>,
      \<lparr>assets = [video0],
       logs = [\<lparr>media_id = ''65a1b2c3d4e5f60718293a4b'', viewed_by_ip = ''10.0.0.1'',
                timestamp = 1703980900000\<rparr>,
               \<lparr>media_id = ''65a1b2c3d4e5f60718293a4b'', viewed_by_ip = ''10.0.0.2'',
                timestamp = 1704067300000\<rparr>],
       hits = [(''10.0.0.2'', 1, 1704067360000)]\<rparr>)
   \<and> get_analytics lib0 cfg0 (at 1704067400000)
     \<lparr>assets = [video0],
       logs = [\<lparr>media_id = ''65a1b2c3d4e5f60718293a4b'', viewed_by_ip = ''10.0.0.1'',
                timestamp = 1703980900000\<rparr>,
               \<lparr>media_id = ''65a1b2c3d4e5f60718293a4b'', viewed_by_ip = ''10.0.0.2'',
                timestamp = 1704067300000\<rparr>],
       hits = [(''10.0.0.2'', 1, 1704067360000)]\<rparr> bearer0 ''65a1b2c3d4e5f60718293a4b'' =
     (Sent \<lparr>status = 200, body = Json_analytics
         \<lparr>total_views = 2, unique_ips = 2,
          views_per_day = [(''2023-12-31'', 1), (''2024-01-01'', 1)]\<rparr>\<rparr>,
      \<lparr>assets = [video0],
       logs = [\<lparr>media_id = ''65a1b2c3d4e5f60718293a4b'', viewed_by_ip = ''10.0.0.1'',
                timestamp = 1703980900000\<rparr>,
               \<lparr>media_id = ''65a1b2c3d4e5f60718293a4b'', viewed_by_ip = ''10.0.0.2'',
                timestamp = 1704067300000\<rparr>],
       hits = [(''10.0.0.2'', 1, 1704067360000)]\<rparr>)"
proof -
  let ?r1 = "\<lparr>media_id = ''65a1b2c3d4e5f60718293a4b'', viewed_by_ip = ''10.0.0.1'',
               timestamp = 1703980900000\<rparr>"
  let ?r2 = "\<lparr>media_id = ''65a1b2c3d4e5f60718293a4b'', viewed_by_ip = ''10.0.0.2'',
                timestamp = 1704067300000\<rparr>"
  let ?s = "\<lparr>assets = [video0], logs = [?r1], hits = []\<rparr>"
  let ?s3 = "\<lparr>assets = [video0], logs = [?r1, ?r2], hits = [(''10.0.0.2'', 1, 1704067360000)]\<rparr>"
  let ?a1 = "\<lparr>total_views = 1, unique_ips = 1, views_per_day = [(''2023-12-31'', 1)]\<rparr>"
  let ?a3 = "\<lparr>total_views = 2, unique_ips = 2,
          views_per_day = [(''2023-12-31'', 1), (''2024-01-01'', 1)]\<rparr>"
  have d1: "day_of ?r1 = ''2023-12-31''"
    by (simp add: day_of_def toISOString_def msPerDay_def YearFromDay.simps DaysInYear_def
        month_lengths_def pad2_def pad3_def pad4_def digit_def Let_def)
  have d2: "day_of ?r2 = ''2024-01-01''"
    by (simp add: day_of_def toISOString_def msPerDay_def YearFromDay.simps DaysInYear_def
        month_lengths_def pad2_def pad3_def pad4_def digit_def Let_def)
  have sm1: "summarize [?r1] = ?a1" by (simp add: summarize_def d1)
  have sm3: "summarize [?r1, ?r2] = ?a3" by (simp add: summarize_def d1 d2)
  have c1: "get_analytics lib0 cfg0 (at 1704067210000) ?s bearer0 ''65a1b2c3d4e5f60718293a4b'' =
      (Sent \<lparr>status = 200, body = Json_analytics ?a1\<rparr>, ?s)"
    using analytics_video0[of "at 1704067210000" "[?r1]" "[]"] by (simp add: at_def sm1)
  have c2: "get_analytics lib0 cfg0 (at 1704067220000) ?s bearer0 ''65a1b2c3d4e5f60718293a4b'' =
      (Sent \<lparr>status = 200, body = Json_analytics ?a1\<rparr>, ?s)"
    using analytics_video0[of "at 1704067220000" "[?r1]" "[]"] by (simp add: at_def sm1)
  have au: "authenticateToken lib0 cfg0 (at 1704067300000) bearer0 =
     Inr \<lparr>payload = [(''id'', ''u1''), (''email'', ''a@b.c'')], iat = 1704067200, exp = Some 1704070800\<rparr>"
    by (rule auth_bearer0) (simp add: at_def)
  have lim: "viewRateLimiter (at 1704067300000) ?s ''10.0.0.2'' =
      (True, \<lparr>assets = [video0], logs = [?r1], hits = [(''10.0.0.2'', 1, 1704067360000)]\<rparr>)"
    by (simp add: viewRateLimiter_def at_def windowMs_def max_hits_def)
  have h: "view_handler lib0 (at 1704067300000)
      \<lparr>assets = [video0], logs = [?r1], hits = hs\<rparr> ''65a1b2c3d4e5f60718293a4b'' ''10.0.0.2'' =
      (Sent \<lparr>status = 201, body = Json_message ''View logged''\<rparr>,
       \<lparr>assets = [video0], logs = [?r1, ?r2], hits = hs\<rparr>)" for hs
    by (simp add: view_handler_def ObjectId_isValid_def lib0_def hex24_def MediaAsset_findById_def
        MediaViewLog_save_def new_MediaViewLog_def at_def video0_def)
  have c3: "post_view lib0 cfg0 (at 1704067300000) ?s bearer0 ''65a1b2c3d4e5f60718293a4b''
      ''10.0.0.2'' = (Sent \<lparr>status = 201, body = Json_message ''View logged''\<rparr>, ?s3)"
    by (simp add: post_view_def au lim h)
  have c4: "get_analytics lib0 cfg0 (at 1704067400000) ?s3 bearer0 ''65a1b2c3d4e5f60718293a4b'' =
      (Sent \<lparr>status = 200, body = Json_analytics ?a3\<rparr>, ?s3)"
    using analytics_video0[of "at 1704067400000" "[?r1, ?r2]" "[(''10.0.0.2'', 1, 1704067360000)]"]
    by (simp add: at_def sm3)
  from analytics_pure_and_monotone[OF c1 c2 c3 c4] c1 c3 c4 show ?thesis by simp
qed

text \<open>
  The summary does not depend on the order in which the store returns the entries: two
  lists holding the same entries, each as many times, have the same totals and the same
  count for every day.
\<close>

lemma summarize_order_independent:
  assumes "mset ls = mset ls'"
  shows "total_views (summarize ls) = total_views (summarize ls')"
    and "unique_ips (summarize ls) = unique_ips (summarize ls')"
    and "day_count (summarize ls) day = day_count (summarize ls') day"
proof -
  from assms have len: "length ls = length ls'" by (rule mset_eq_length)
  from assms have st: "set ls = set ls'" by (rule mset_eq_setD)
  from assms have "mset (filter (\<lambda>l. day_of l = day) ls) = mset (filter (\<lambda>l. day_of l = day) ls')"
    by simp
  then have fl: "length (filter (\<lambda>l. day_of l = day) ls) = length (filter (\<lambda>l. day_of l = day) ls')"
    by (rule mset_eq_length)
  show "total_views (summarize ls) = total_views (summarize ls')"
    using len by (simp add: summarize_def)
  show "unique_ips (summarize ls) = unique_ips (summarize ls')"
    using st by (simp add: unique_ips_card)
  show "day_count (summarize ls) day = day_count (summarize ls') day"
    using fl by (simp add: day_count_summarize)
qed

end
